theory Spec2Isabelle
  imports Complex_Main
begin

section \<open>Timeline engine of the editor (src/App.tsx)\<close>

text \<open>
  The development embeds the timeline and playback part of \<^verbatim>\<open>App.tsx\<close>: the time
  quantisation, the fade curves, the derived timeline extent, the active-clip resolver, the
  history stack and the edit handlers of the component.

  Conventions of the embedding.
  \<^item> A JavaScript \<^verbatim>\<open>number\<close> is a \<^typ>\<open>real\<close>: arithmetic is exact, and \<^verbatim>\<open>NaN\<close> and the
    infinities are not values. Where the source can divide by zero the text says what the
    source computes there.
  \<^item> The React state of the component is a record; a handler is a function from the state of
    the render it was created in to the state after its updates are applied. The refs that
    mirror the state (\<^verbatim>\<open>videoTracksRef\<close> and the others) are refreshed after every render, so
    a handler reads from them what the state record holds.
  \<^item> An exception that leaves a handler is returned next to the state: the updates queued
    before the \<^verbatim>\<open>throw\<close> are still applied by React.
  \<^item> \<^verbatim>\<open>Date.now()\<close> is a parameter \<open>now\<close> of the handlers that call it.
\<close>

subsection \<open>Data model (the declarations of VideoClip and VideoTrack)\<close>

datatype clip_kind = Video | Image | Text

datatype blend_mode = Normal | Screen | Multiply | Overlay | Darken | Lighten

datatype filter_preset = NoPreset | Grayscale | Sepia | Vintage | Cyberpunk | Warm | Cool | Drama

datatype fade_curve = Linear | Smooth | Buttery

record VideoClip =
  clip_id :: string
  clip_name :: string
  url :: string
  clip_type :: clip_kind
  originalDuration :: real
  width :: real
  height :: real
  duration :: real
  startTime :: real
  trimStart :: real
  trimEnd :: real
  opacity :: real
  scale :: real
  rotation :: real
  positionX :: real
  positionY :: real
  blendMode :: blend_mode
  brightness :: real
  contrast :: real
  saturation :: real
  hueRotate :: real
  blur :: real
  filterPreset :: filter_preset
  fadeIn :: real
  fadeOut :: real
  fadeCurve :: fade_curve
  textContent :: "string option"
  fontSize :: "real option"
  textColor :: "string option"
  fontFamily :: "string option"
  backgroundColor :: "string option"
  volume :: real
  speed :: real

record VideoTrack =
  track_id :: string
  track_name :: string
  clips :: "VideoClip list"
  isMuted :: bool
  isLocked :: bool

subsection \<open>Time utilities and fade curves\<close>

text \<open>\<^verbatim>\<open>Math.round(x)\<close> is \<open>\<lfloor>x + 1/2\<rfloor>\<close>, which is \<^const>\<open>round\<close>.\<close>

definition roundTime :: "real \<Rightarrow> real" where
  "roundTime val = real_of_int (round (val * 10000)) / 10000"

definition calculateFadeFactor :: "real \<Rightarrow> fade_curve \<Rightarrow> real" where
  "calculateFadeFactor t ty =
     (if t \<le> 0 then 0
      else if t \<ge> 1 then 1
      else if ty = Linear then t
      else if ty = Buttery then t * t * t * (t * (t * 6 - 15) + 10)
      else t * t * (3 - 2 * t))"

text \<open>
  The fade factor of a clip at the current time. The source computes it inline, with the same
  text, in the media synchroniser (for the video elements and for the audio element) and in
  the render of the stage. When \<open>fadeIn\<close> is \<open>0\<close> in the first branch the numerator is
  negative and the source's quotient is \<^verbatim>\<open>-Infinity\<close>, for which \<^verbatim>\<open>calculateFadeFactor\<close>
  answers \<open>0\<close> by its first test; the quotient of the model is \<open>0\<close> there and passes the same
  test. The same holds for \<open>fadeOut\<close> in the second branch.
\<close>

definition clipFadeFactor :: "VideoClip \<Rightarrow> real \<Rightarrow> real" where
  "clipFadeFactor clip currentVideoTime =
     (let timeInClip = currentVideoTime - startTime clip;
          timeFromEnd = (startTime clip + duration clip) - currentVideoTime;
          curveType = fadeCurve clip
      in if timeInClip < fadeIn clip then calculateFadeFactor (timeInClip / fadeIn clip) curveType
         else if timeFromEnd < fadeOut clip then calculateFadeFactor (timeFromEnd / fadeOut clip) curveType
         else 1)"

text \<open>The fade factor as the specification words it, to be compared with the code.\<close>

definition curve_spec :: "fade_curve \<Rightarrow> real \<Rightarrow> real" where
  "curve_spec ty x =
     (case ty of
        Linear \<Rightarrow> x
      | Smooth \<Rightarrow> 3 * x ^ 2 - 2 * x ^ 3
      | Buttery \<Rightarrow> 6 * x ^ 5 - 15 * x ^ 4 + 10 * x ^ 3)"

definition clamped_curve_spec :: "fade_curve \<Rightarrow> real \<Rightarrow> real" where
  "clamped_curve_spec ty x = (if x < 0 then 0 else if x > 1 then 1 else curve_spec ty x)"

definition fadeFactor_spec :: "VideoClip \<Rightarrow> real \<Rightarrow> real" where
  "fadeFactor_spec clip t =
     (if t - startTime clip < fadeIn clip
        then clamped_curve_spec (fadeCurve clip) ((t - startTime clip) / fadeIn clip)
      else if (startTime clip + duration clip) - t < fadeOut clip
        then clamped_curve_spec (fadeCurve clip) (((startTime clip + duration clip) - t) / fadeOut clip)
      else 1)"

subsection \<open>The state of the component\<close>

datatype edit_tool = Move | Razor

datatype inspector_tab = Props | Effects | Ai | TextTab

text \<open>
  The exception the platform functions used here can throw: \<^verbatim>\<open>JSON.parse\<close> on a text that
  is not JSON, which is also what it does on \<^verbatim>\<open>undefined\<close>.
\<close>

datatype js_error = SyntaxError

text \<open>
  The texts the modelled handlers parse are texts the component serialised itself: a history
  entry is written by \<^verbatim>\<open>pushVideoHistory\<close> only, and the \<^verbatim>\<open>clip\<close> payload of a drag by
  \<^verbatim>\<open>handleDragStart\<close> only, both with \<^verbatim>\<open>JSON.stringify\<close>. The serialiser is the platform's:
  such a text is represented by the value it was made from, and parsing it gives that value
  back. Texts of another origin, whether JSON or not, are not values of the type.
\<close>

datatype 'a json_text = Stringified 'a

definition JSON_stringify :: "'a \<Rightarrow> 'a json_text" where
  "JSON_stringify v = Stringified v"

fun JSON_parse :: "'a json_text \<Rightarrow> js_error + 'a" where
  "JSON_parse (Stringified v) = Inr v"

text \<open>The object \<^verbatim>\<open>{ videoTracks, timelineAudioTracks }\<close> that a history entry serialises.\<close>

record snapshot =
  snap_videoTracks :: "VideoTrack list"
  snap_timelineAudioTracks :: "VideoTrack list"

record editor =
  videoTracks :: "VideoTrack list"
  timelineAudioTracks :: "VideoTrack list"
  videoHistory :: "snapshot json_text list"
  videoHistoryIndex :: int
  currentVideoTime :: real
  isVideoPlaying :: bool
  selectedClipId :: "string option"
  videoEditTool :: edit_tool
  isMagnetEnabled :: bool
  activeInspectorTab :: inspector_tab
  timelineScale :: real
  draggingClipId :: "string option"
  isScrubbing :: bool
  dragStartX :: real
  dragOriginalStartTime :: real

text \<open>
  The initial values of the \<^verbatim>\<open>useState\<close> calls. The track names of the source are Arabic
  strings; they are written in ASCII here and no property depends on them.
\<close>

definition emptyTrack :: "string \<Rightarrow> string \<Rightarrow> VideoTrack" where
  "emptyTrack i n = \<lparr> track_id = i, track_name = n, clips = [], isMuted = False, isLocked = False \<rparr>"

definition initialEditor :: editor where
  "initialEditor =
     \<lparr> videoTracks = [emptyTrack ''v1'' ''Video 1'', emptyTrack ''v2'' ''Video 2'',
                      emptyTrack ''v3'' ''Text/FX''],
       timelineAudioTracks = [emptyTrack ''a1'' ''Audio 1''],
       videoHistory = [], videoHistoryIndex = - 1,
       currentVideoTime = 0, isVideoPlaying = False, selectedClipId = None,
       videoEditTool = Move, isMagnetEnabled = True, activeInspectorTab = Props,
       timelineScale = 20, draggingClipId = None, isScrubbing = False,
       dragStartX = 0, dragOriginalStartTime = 0 \<rparr>"

text \<open>A JavaScript string is truthy when it is neither \<^verbatim>\<open>null\<close> nor empty.\<close>

fun truthy :: "string option \<Rightarrow> bool" where
  "truthy None = False"
| "truthy (Some str) = (str \<noteq> [])"

subsection \<open>Derived timeline extent\<close>

text \<open>\<^verbatim>\<open>[...videoTracks, ...timelineAudioTracks].flatMap(t => t.clips)\<close>\<close>

definition allClips :: "editor \<Rightarrow> VideoClip list" where
  "allClips s = concat (map clips (videoTracks s @ timelineAudioTracks s))"

text \<open>\<^verbatim>\<open>Math.max(a, ...rest)\<close>\<close>

definition Math_max :: "real \<Rightarrow> real list \<Rightarrow> real" where
  "Math_max a rest = fold max rest a"

definition maxTime :: "editor \<Rightarrow> real" where
  "maxTime s =
     (if length (allClips s) = 0 then 60
      else Math_max 60 (map (\<lambda>c. startTime c + duration c) (allClips s)) + 2)"

text \<open>
  The extent as the specification words it: the greatest of \<open>60\<close> and the clip ends, plus \<open>2\<close>.
\<close>

definition maxTime_spec :: "editor \<Rightarrow> real" where
  "maxTime_spec s = Max (insert 60 ((\<lambda>c. startTime c + duration c) ` set (allClips s))) + 2"

subsection \<open>Active-clip resolver\<close>

definition lookAhead :: real where
  "lookAhead = 0.05"

definition visibleAt :: "real \<Rightarrow> VideoClip \<Rightarrow> bool" where
  "visibleAt t c \<longleftrightarrow> (t + lookAhead) \<ge> startTime c \<and> t < (startTime c + duration c)"

definition audibleAt :: "real \<Rightarrow> VideoClip \<Rightarrow> bool" where
  "audibleAt t c \<longleftrightarrow> t \<ge> startTime c \<and> t < (startTime c + duration c)"

text \<open>
  The \<^verbatim>\<open>forEach\<close> over the video tracks pushes at most one entry for each index; the
  stable sort by \<open>trackIndex\<close> follows.
\<close>

definition visibleEntry :: "real \<Rightarrow> nat \<times> VideoTrack \<Rightarrow> (VideoClip \<times> VideoTrack \<times> nat) list" where
  "visibleEntry t p =
     (case p of (idx, track) \<Rightarrow>
        if isMuted track then []
        else (case find (visibleAt t) (clips track) of
                None \<Rightarrow> []
              | Some clip \<Rightarrow> [(clip, track, idx)]))"

definition trackIndex :: "VideoClip \<times> VideoTrack \<times> nat \<Rightarrow> nat" where
  "trackIndex v = snd (snd v)"

definition visibleClips :: "VideoTrack list \<Rightarrow> real \<Rightarrow> (VideoClip \<times> VideoTrack \<times> nat) list" where
  "visibleClips tracks t = sort_key trackIndex (concat (map (visibleEntry t) (enumerate 0 tracks)))"

fun activeAudio :: "VideoTrack list \<Rightarrow> real \<Rightarrow> (VideoClip \<times> VideoTrack) option" where
  "activeAudio [] t = None"
| "activeAudio (track # rest) t =
     (if isMuted track then activeAudio rest t
      else (case find (audibleAt t) (clips track) of
              Some clip \<Rightarrow> Some (clip, track)
            | None \<Rightarrow> activeAudio rest t))"

record active_clips =
  visible :: "(VideoClip \<times> VideoTrack \<times> nat) list"
  activeAudioClip :: "VideoClip option"
  activeAudioTrack :: "VideoTrack option"

definition getAllActiveClips :: "editor \<Rightarrow> active_clips" where
  "getAllActiveClips s =
     \<lparr> visible = visibleClips (videoTracks s) (currentVideoTime s),
       activeAudioClip = map_option fst (activeAudio (timelineAudioTracks s) (currentVideoTime s)),
       activeAudioTrack = map_option snd (activeAudio (timelineAudioTracks s) (currentVideoTime s)) \<rparr>"

subsection \<open>Edit history\<close>

text \<open>
  \<^verbatim>\<open>xs.slice(0, e)\<close>: a negative end counts from the end of the array. \<^verbatim>\<open>xs[i]\<close> is
  \<^verbatim>\<open>undefined\<close> outside the array, and \<^verbatim>\<open>JSON.parse(undefined)\<close> throws a syntax error.
\<close>

definition slice0 :: "'a list \<Rightarrow> int \<Rightarrow> 'a list" where
  "slice0 xs e = (if e < 0 then take (nat (int (length xs) + e)) xs else take (nat e) xs)"

definition js_index :: "'a list \<Rightarrow> int \<Rightarrow> 'a option" where
  "js_index xs i = (if 0 \<le> i \<and> i < int (length xs) then Some (xs ! nat i) else None)"

definition parse_entry :: "'a json_text list \<Rightarrow> int \<Rightarrow> js_error + 'a" where
  "parse_entry history i =
     (case js_index history i of None \<Rightarrow> Inl SyntaxError | Some txt \<Rightarrow> JSON_parse txt)"

definition currentSnapshot :: "editor \<Rightarrow> snapshot" where
  "currentSnapshot s =
     \<lparr> snap_videoTracks = videoTracks s, snap_timelineAudioTracks = timelineAudioTracks s \<rparr>"

definition pushVideoHistory :: "editor \<Rightarrow> editor" where
  "pushVideoHistory s =
     (let state = JSON_stringify (currentSnapshot s);
          currentHistory = videoHistory s;
          currentIndex = videoHistoryIndex s;
          pushed = slice0 currentHistory (currentIndex + 1) @ [state];
          newHistory = (if length pushed > 20 then tl pushed else pushed)
      in s \<lparr> videoHistory := newHistory, videoHistoryIndex := int (length newHistory) - 1 \<rparr>)"

text \<open>
  Undo and redo write the cursor first and parse the entry afterwards; when the parse throws,
  the cursor update is already queued and the track updates are never reached.
\<close>

definition handleVideoUndo :: "editor \<Rightarrow> js_error option \<times> editor" where
  "handleVideoUndo s =
     (let currentIndex = videoHistoryIndex s
      in if currentIndex > 0
         then (let newIndex = currentIndex - 1;
                   s1 = s \<lparr> videoHistoryIndex := newIndex \<rparr>
               in case parse_entry (videoHistory s) newIndex of
                    Inl err \<Rightarrow> (Some err, s1)
                  | Inr state \<Rightarrow>
                      (None, s1 \<lparr> videoTracks := snap_videoTracks state,
                                   timelineAudioTracks := snap_timelineAudioTracks state \<rparr>))
         else (None, s))"

definition handleVideoRedo :: "editor \<Rightarrow> js_error option \<times> editor" where
  "handleVideoRedo s =
     (let currentIndex = videoHistoryIndex s;
          history = videoHistory s
      in if currentIndex < int (length history) - 1
         then (let newIndex = currentIndex + 1;
                   s1 = s \<lparr> videoHistoryIndex := newIndex \<rparr>
               in case parse_entry history newIndex of
                    Inl err \<Rightarrow> (Some err, s1)
                  | Inr state \<Rightarrow>
                      (None, s1 \<lparr> videoTracks := snap_videoTracks state,
                                   timelineAudioTracks := snap_timelineAudioTracks state \<rparr>))
         else (None, s))"

text \<open>The effect run once after the first render: \<^verbatim>\<open>if (videoHistory.length === 0) pushVideoHistory()\<close>.\<close>

definition mountedEditor :: editor where
  "mountedEditor =
     (if length (videoHistory initialEditor) = 0 then pushVideoHistory initialEditor
      else initialEditor)"

subsection \<open>Clip editor\<close>

text \<open>The decimal text of a time stamp, as \<^verbatim>\<open>Date.now().toString()\<close> and string concatenation give it.\<close>

function toString :: "nat \<Rightarrow> string" where
  "toString n =
     (if n < 10 then [char_of (48 + n)]
      else toString (n div 10) @ [char_of (48 + n mod 10)])"
  by pat_completeness auto
termination
  by (relation "measure (\<lambda>n. n)") auto

declare toString.simps [simp del]

definition HEADER_WIDTH :: real where
  "HEADER_WIDTH = 120"

text \<open>
  What a handler reads from a pointer or drag event: \<open>clientX\<close>, and the left edge of the
  bounding rectangle of the timeline container, \<open>None\<close> while the ref is not attached.
\<close>

record pointer =
  clientX :: real
  containerLeft :: "real option"

definition getTimelineTimeFromEvent :: "editor \<Rightarrow> pointer \<Rightarrow> real" where
  "getTimelineTimeFromEvent s e =
     (case containerLeft e of
        None \<Rightarrow> 0
      | Some left \<Rightarrow>
          (let pixelX = clientX e - left;
               contentX = pixelX - HEADER_WIDTH;
               time = max 0 (contentX / timelineScale s)
           in roundTime time))"

definition handleDeleteClip :: "editor \<Rightarrow> editor" where
  "handleDeleteClip s =
     (if \<not> truthy (selectedClipId s) then s
      else (let s1 = pushVideoHistory s;
                remove = map (\<lambda>t. t \<lparr> clips := filter (\<lambda>c. Some (clip_id c) \<noteq> selectedClipId s) (clips t) \<rparr>)
            in s1 \<lparr> videoTracks := remove (videoTracks s1),
                     timelineAudioTracks := remove (timelineAudioTracks s1),
                     selectedClipId := None \<rparr>))"

text \<open>
  The two halves of a split (\<^verbatim>\<open>clipA\<close>, \<^verbatim>\<open>clipB\<close>) and the track update
  (\<^verbatim>\<open>updateTracks\<close>), which \<^verbatim>\<open>handleSplitAtPlayhead\<close> and the razor branch of
  \<^verbatim>\<open>handleClipMouseDown\<close> build with the same text.
\<close>

definition splitClipA :: "VideoClip \<Rightarrow> real \<Rightarrow> VideoClip" where
  "splitClipA clip splitTime =
     clip \<lparr> duration := splitTime, trimEnd := trimStart clip + splitTime \<rparr>"

definition splitClipB :: "VideoClip \<Rightarrow> real \<Rightarrow> nat \<Rightarrow> VideoClip" where
  "splitClipB clip splitTime now =
     clip \<lparr> startTime := startTime clip + splitTime,
            trimStart := trimStart clip + splitTime,
            duration := roundTime (duration clip - splitTime),
            clip_id := clip_id clip @ ''_split_'' @ toString now \<rparr>"

definition updateTracks :: "string \<Rightarrow> VideoClip \<Rightarrow> VideoClip \<Rightarrow> VideoClip \<Rightarrow> VideoTrack list \<Rightarrow> VideoTrack list" where
  "updateTracks trackId clip clipA clipB tracks =
     map (\<lambda>t. if track_id t \<noteq> trackId then t
              else t \<lparr> clips := map (\<lambda>c. if clip_id c = clip_id clip then clipA else c) (clips t) @ [clipB] \<rparr>)
         tracks"

text \<open>
  The clips of both collections, each with the id of its track and whether the track is a
  timeline audio track (the source tests \<^verbatim>\<open>timelineAudioTracks.includes(t)\<close> on the track
  object). The source stores the two tags as extra properties \<^verbatim>\<open>trackId\<close> and \<^verbatim>\<open>isAudio\<close> of
  a copy of the clip, and the halves of a split at the playhead inherit them; no code reads
  them from a clip on a track, and the clip record does not carry them.
\<close>

definition taggedClips :: "editor \<Rightarrow> (VideoClip \<times> string \<times> bool) list" where
  "taggedClips s =
     concat (map (\<lambda>t. map (\<lambda>c. (c, track_id t, False)) (clips t)) (videoTracks s))
     @ concat (map (\<lambda>t. map (\<lambda>c. (c, track_id t, True)) (clips t)) (timelineAudioTracks s))"

definition handleSplitAtPlayhead :: "editor \<Rightarrow> nat \<Rightarrow> editor" where
  "handleSplitAtPlayhead s now =
     (if \<not> truthy (selectedClipId s) then s
      else (case find (\<lambda>p. Some (clip_id (fst p)) = selectedClipId s) (taggedClips s) of
              None \<Rightarrow> s
            | Some (clip, trackId, isAudio) \<Rightarrow>
                (let relativeTime = roundTime (currentVideoTime s - startTime clip)
                 in if relativeTime < 0.1 \<or> (duration clip - relativeTime) < 0.1 then s
                    else (let s1 = pushVideoHistory s;
                              splitTime = relativeTime;
                              clipA = splitClipA clip splitTime;
                              clipB = splitClipB clip splitTime now
                          in if isAudio
                             then s1 \<lparr> timelineAudioTracks :=
                                         updateTracks trackId clip clipA clipB (timelineAudioTracks s1) \<rparr>
                             else s1 \<lparr> videoTracks :=
                                         updateTracks trackId clip clipA clipB (videoTracks s1) \<rparr>))))"

text \<open>
  The payload of a drop: \<open>None\<close> when the drag carries no \<^verbatim>\<open>clip\<close> data, else the text that
  \<^verbatim>\<open>handleDragStart\<close> stored. The new clip takes the time stamp as its id; the track is
  empty only when a track of that id is found and has no clips.
\<close>

definition handleTrackDrop ::
  "editor \<Rightarrow> pointer \<Rightarrow> VideoClip json_text option \<Rightarrow> string \<Rightarrow> bool \<Rightarrow> nat \<Rightarrow> js_error option \<times> editor" where
  "handleTrackDrop s e clipData trackId isAudioTrack now =
     (case clipData of
        None \<Rightarrow> (None, s)
      | Some txt \<Rightarrow>
          (case JSON_parse txt of
             Inl err \<Rightarrow> (Some err, s)
           | Inr sourceClip \<Rightarrow>
               (let dropTime = getTimelineTimeFromEvent s e;
                    isTrackEmpty =
                      (case find (\<lambda>t. track_id t = trackId)
                                 (if isAudioTrack then timelineAudioTracks s else videoTracks s) of
                         None \<Rightarrow> False
                       | Some track \<Rightarrow> length (clips track) = 0);
                    finalTime = (if isTrackEmpty then 0 else dropTime);
                    newClip = sourceClip \<lparr> clip_id := toString now, startTime := finalTime \<rparr>;
                    s1 = pushVideoHistory s;
                    append = map (\<lambda>t. if track_id t = trackId then t \<lparr> clips := clips t @ [newClip] \<rparr> else t)
                in (None, if isAudioTrack
                          then s1 \<lparr> timelineAudioTracks := append (timelineAudioTracks s1) \<rparr>
                          else s1 \<lparr> videoTracks := append (videoTracks s1) \<rparr>))))"

text \<open>
  Pointer-down on a clip of the track \<open>trackId\<close>: with the razor a split at the pointer,
  otherwise the start of a drag. Nothing in the \<^verbatim>\<open>try\<close> block throws.
\<close>

definition handleClipMouseDown :: "editor \<Rightarrow> pointer \<Rightarrow> VideoClip \<Rightarrow> string \<Rightarrow> bool \<Rightarrow> nat \<Rightarrow> editor" where
  "handleClipMouseDown s e clip trackId isAudioTrack now =
     (if videoEditTool s = Razor
      then (let globalTime = getTimelineTimeFromEvent s e;
                relativeTime = roundTime (globalTime - startTime clip)
            in if relativeTime < 0.1 \<or> (duration clip - relativeTime) < 0.1 then s
               else (let s1 = pushVideoHistory s;
                         splitTime = relativeTime;
                         clipA = splitClipA clip splitTime;
                         clipB = splitClipB clip splitTime now
                     in if isAudioTrack
                        then s1 \<lparr> timelineAudioTracks :=
                                    updateTracks trackId clip clipA clipB (timelineAudioTracks s1) \<rparr>
                        else s1 \<lparr> videoTracks :=
                                    updateTracks trackId clip clipA clipB (videoTracks s1) \<rparr>))
      else s \<lparr> selectedClipId := Some (clip_id clip),
               activeInspectorTab := (if clip_type clip = Text then TextTab else Props),
               draggingClipId := Some (clip_id clip),
               dragStartX := clientX e,
               dragOriginalStartTime := startTime clip \<rparr>)"

text \<open>
  \<^verbatim>\<open>updateSelectedClip\<close> merges a partial clip into the selected clip. The partial object is
  given by the function \<open>merge\<close> that overwrites the fields it carries
  (\<^verbatim>\<open>{ ...c, ...updates }\<close>).
\<close>

definition updateSelectedClip :: "editor \<Rightarrow> (VideoClip \<Rightarrow> VideoClip) \<Rightarrow> editor" where
  "updateSelectedClip s merge =
     (if \<not> truthy (selectedClipId s) then s
      else (let applyUpdate =
                  map (\<lambda>t. t \<lparr> clips := map (\<lambda>c. if Some (clip_id c) = selectedClipId s then merge c else c) (clips t) \<rparr>)
            in s \<lparr> videoTracks := applyUpdate (videoTracks s),
                    timelineAudioTracks := applyUpdate (timelineAudioTracks s) \<rparr>))"

definition toggleTrackMute :: "editor \<Rightarrow> string \<Rightarrow> bool \<Rightarrow> editor" where
  "toggleTrackMute s trackId isAudioTrack =
     (let s1 = pushVideoHistory s;
          toggle = map (\<lambda>t. if track_id t = trackId then t \<lparr> isMuted := \<not> isMuted t \<rparr> else t)
      in if isAudioTrack
         then s1 \<lparr> timelineAudioTracks := toggle (timelineAudioTracks s1) \<rparr>
         else s1 \<lparr> videoTracks := toggle (videoTracks s1) \<rparr>)"

text \<open>
  The magnet loop of \<^verbatim>\<open>handleTimelineMouseMove\<close>: one pass of the loop body, the loop over
  all clips, and the final snap to \<open>0\<close>.
\<close>

definition snapStep :: "string option \<Rightarrow> real \<Rightarrow> VideoClip \<Rightarrow> real \<Rightarrow> real" where
  "snapStep dragging snapThreshold other newStartTime =
     (if Some (clip_id other) = dragging then newStartTime
      else (let n1 = (if \<bar>newStartTime - (startTime other + duration other)\<bar> < snapThreshold
                      then startTime other + duration other else newStartTime)
            in if \<bar>n1 - startTime other\<bar> < snapThreshold then startTime other else n1))"

fun snapLoop :: "string option \<Rightarrow> real \<Rightarrow> VideoClip list \<Rightarrow> real \<Rightarrow> real" where
  "snapLoop dragging snapThreshold [] newStartTime = newStartTime"
| "snapLoop dragging snapThreshold (other # rest) newStartTime =
     snapLoop dragging snapThreshold rest (snapStep dragging snapThreshold other newStartTime)"

definition magnetSnap :: "editor \<Rightarrow> real \<Rightarrow> real" where
  "magnetSnap s newStartTime =
     (let snapThreshold = 15 / timelineScale s;
          snapped = snapLoop (draggingClipId s) snapThreshold (allClips s) newStartTime
      in if snapped < snapThreshold then 0 else snapped)"

definition handleTimelineMouseMove :: "editor \<Rightarrow> pointer \<Rightarrow> editor" where
  "handleTimelineMouseMove s e =
     (if isScrubbing s then s \<lparr> currentVideoTime := getTimelineTimeFromEvent s e \<rparr>
      else if \<not> truthy (draggingClipId s) \<or> videoEditTool s \<noteq> Move then s
      else (let deltaPixels = clientX e - dragStartX s;
                deltaSeconds = deltaPixels / timelineScale s;
                rounded = roundTime (dragOriginalStartTime s + deltaSeconds);
                clamped = (if rounded < 0 then 0 else rounded);
                newStartTime = (if isMagnetEnabled s then magnetSnap s clamped else clamped);
                updateClipInTracks =
                  map (\<lambda>t. t \<lparr> clips := map (\<lambda>c. if Some (clip_id c) = draggingClipId s
                                                  then c \<lparr> startTime := newStartTime \<rparr> else c) (clips t) \<rparr>)
            in s \<lparr> videoTracks := updateClipInTracks (videoTracks s),
                    timelineAudioTracks := updateClipInTracks (timelineAudioTracks s) \<rparr>))"

definition handleTimelineMouseUp :: "editor \<Rightarrow> editor" where
  "handleTimelineMouseUp s =
     (let s1 = (if truthy (draggingClipId s) then pushVideoHistory s else s)
      in s1 \<lparr> draggingClipId := None, isScrubbing := False \<rparr>)"

subsection \<open>Notions used in the statements\<close>

text \<open>The timeline with every lock flag cleared, to compare a handler with and without locks.\<close>

definition unlock :: "VideoTrack \<Rightarrow> VideoTrack" where
  "unlock t = t \<lparr> isLocked := False \<rparr>"

definition unlockAll :: "editor \<Rightarrow> editor" where
  "unlockAll s = s \<lparr> videoTracks := map unlock (videoTracks s),
                      timelineAudioTracks := map unlock (timelineAudioTracks s) \<rparr>"

text \<open>
  A handler takes no account of the lock flags when, from \<open>s\<close>, it reaches \<open>s'\<close> and, from \<open>s\<close>
  with every lock cleared, it reaches \<open>u'\<close>, such that \<open>u'\<close> holds the tracks of \<open>s'\<close> with the
  locks cleared and \<open>s'\<close> has the lock flags of \<open>s\<close>.
\<close>

definition locksIgnored :: "editor \<Rightarrow> editor \<Rightarrow> editor \<Rightarrow> bool" where
  "locksIgnored s s' u' \<longleftrightarrow>
     videoTracks u' = map unlock (videoTracks s')
     \<and> timelineAudioTracks u' = map unlock (timelineAudioTracks s')
     \<and> map isLocked (videoTracks s') = map isLocked (videoTracks s)
     \<and> map isLocked (timelineAudioTracks s') = map isLocked (timelineAudioTracks s)"

text \<open>
  The magnet in words: the boundaries of the clips other than the dragged one, in
  iteration order with the end of each clip before its start, and the rule that a boundary
  within the threshold of the value chosen so far replaces it.
\<close>

definition snapCandidates :: "string option \<Rightarrow> VideoClip list \<Rightarrow> real list" where
  "snapCandidates dragging cs =
     concat (map (\<lambda>c. [startTime c + duration c, startTime c])
                 (filter (\<lambda>c. Some (clip_id c) \<noteq> dragging) cs))"

definition overwrite :: "real \<Rightarrow> real \<Rightarrow> real \<Rightarrow> real" where
  "overwrite snapThreshold chosen boundary =
     (if \<bar>chosen - boundary\<bar> < snapThreshold then boundary else chosen)"




subsection \<open>Example timelines\<close>

text \<open>
  A pool clip as \<^verbatim>\<open>handleImportMedia\<close> creates it for a video whose metadata could not be read
  (ten seconds, 1920 by 1080).
\<close>

definition importedClip :: "string \<Rightarrow> VideoClip" where
  "importedClip i =
     \<lparr> clip_id = i, clip_name = ''a.mp4'', url = ''blob:a'', clip_type = Video,
       originalDuration = 10, width = 1920, height = 1080,
       duration = 10, startTime = 0, trimStart = 0, trimEnd = 10,
       opacity = 100, scale = 100, rotation = 0, positionX = 0, positionY = 0,
       blendMode = Normal, brightness = 100, contrast = 100, saturation = 100,
       hueRotate = 0, blur = 0, filterPreset = NoPreset,
       fadeIn = 0, fadeOut = 0, fadeCurve = Smooth,
       textContent = None, fontSize = None, textColor = None, fontFamily = None,
       backgroundColor = None, volume = 100, speed = 100 \<rparr>"

text \<open>A clip of the pool placed at \<open>start\<close> with length \<open>len\<close>.\<close>

definition placed :: "string \<Rightarrow> real \<Rightarrow> real \<Rightarrow> VideoClip" where
  "placed i start len = importedClip i \<lparr> duration := len, startTime := start \<rparr>"

text \<open>
  An example timeline: two overlapping clips on the first video track, a muted second video
  track, and three audio tracks of which the first is muted; the playhead is at \<open>4\<close>.
\<close>

definition resolverExample :: editor where
  "resolverExample = initialEditor
     \<lparr> videoTracks :=
         [emptyTrack ''v1'' ''Video 1'' \<lparr> clips := [placed ''A'' 0 10, placed ''B'' 3 10] \<rparr>,
          emptyTrack ''v2'' ''Video 2'' \<lparr> clips := [placed ''C'' 0 10], isMuted := True \<rparr>,
          emptyTrack ''v3'' ''Text/FX''],
       timelineAudioTracks :=
         [emptyTrack ''a1'' ''Audio 1'' \<lparr> clips := [placed ''M'' 0 10], isMuted := True \<rparr>,
          emptyTrack ''a2'' ''Audio 2'' \<lparr> clips := [placed ''N1'' (402 / 100) 5, placed ''N2'' 0 10] \<rparr>,
          emptyTrack ''a3'' ''Audio 3'' \<lparr> clips := [placed ''P'' 0 10] \<rparr>],
       currentVideoTime := 4 \<rparr>"

text \<open>
  An example for the split: clip \<open>A\<close> on \<open>[0, 10)\<close> alone on the first video track and
  selected, the razor active, the playhead at \<open>t\<close>; and a pointer at \<open>x\<close> pixels from the left
  edge of the timeline container.
\<close>

definition splitExample :: "real \<Rightarrow> editor" where
  "splitExample t = initialEditor
     \<lparr> videoTracks := [emptyTrack ''v1'' ''Video 1'' \<lparr> clips := [placed ''A'' 0 10] \<rparr>,
                       emptyTrack ''v2'' ''Video 2''],
       currentVideoTime := t, selectedClipId := Some ''A'', videoEditTool := Razor \<rparr>"

definition pointerAt :: "real \<Rightarrow> pointer" where
  "pointerAt x = \<lparr> clientX = x, containerLeft = Some 0 \<rparr>"

text \<open>
  An example for the drop: clip \<open>A\<close> on \<open>[0, 5)\<close> on the first video track, the magnet on, and
  the scale at \<open>5\<close> pixels per second, so that the snap threshold is \<open>3\<close> seconds.
\<close>

definition dropExample :: editor where
  "dropExample = initialEditor
     \<lparr> videoTracks := [emptyTrack ''v1'' ''Video 1'' \<lparr> clips := [placed ''A'' 0 5] \<rparr>,
                       emptyTrack ''v2'' ''Video 2''],
       isMagnetEnabled := True, timelineScale := 5 \<rparr>"

text \<open>The split example with its first video track locked.\<close>

definition lockedExample :: editor where
  "lockedExample = splitExample 0
     \<lparr> videoTracks := [emptyTrack ''v1'' ''Video 1'' \<lparr> clips := [placed ''A'' 0 10], isLocked := True \<rparr>,
                       emptyTrack ''v2'' ''Video 2''] \<rparr>"

text \<open>
  An example for the magnet: clip \<open>D\<close> is dragged, \<open>X\<close> ends at \<open>3.1\<close> and \<open>Y\<close> starts at \<open>3.6\<close>; the
  scale is \<open>20\<close> pixels per second, so the threshold is \<open>0.75\<close> seconds.
\<close>

definition snapExample :: editor where
  "snapExample = initialEditor
     \<lparr> videoTracks := [emptyTrack ''v1'' ''Video 1'' \<lparr> clips := [placed ''D'' 0 2] \<rparr>,
                       emptyTrack ''v2'' ''Video 2'' \<lparr> clips := [placed ''X'' (11 / 10) 2] \<rparr>],
       timelineAudioTracks := [emptyTrack ''a1'' ''Audio 1'' \<lparr> clips := [placed ''Y'' (36 / 10) 2] \<rparr>],
       draggingClipId := Some ''D'', dragStartX := 0, dragOriginalStartTime := 0 \<rparr>"

text \<open>
  A session: after the first render, a pool clip is dropped on the first video track, then a
  second one is dropped on the same track at \<open>15\<close> seconds.
\<close>

definition afterDropA :: editor where
  "afterDropA = snd (handleTrackDrop mountedEditor (pointerAt 120)
     (Some (JSON_stringify (importedClip ''pool1''))) ''v1'' False 1000)"

definition afterDropB :: editor where
  "afterDropB = snd (handleTrackDrop afterDropA (pointerAt 420)
     (Some (JSON_stringify (importedClip ''pool2''))) ''v1'' False 2000)"

text \<open>
  The session continued from the first drop: the dropped clip is grabbed with the move tool,
  dragged \<open>200\<close> pixels to the right and released.
\<close>

definition droppedClip :: VideoClip where
  "droppedClip = importedClip ''pool1'' \<lparr> clip_id := ''1000'', startTime := 0 \<rparr>"

definition whileDragging :: editor where
  "whileDragging = handleTimelineMouseMove
     (handleClipMouseDown afterDropA (pointerAt 120) droppedClip ''v1'' False 1500) (pointerAt 320)"

definition afterMove :: editor where
  "afterMove = handleTimelineMouseUp whileDragging"



text \<open>
  The session continued from the first drop in another way: the dropped clip is clicked with
  the move tool, which selects it, and its opacity is set to \<open>50\<close> in the inspector.
\<close>

definition afterClick :: editor where
  "afterClick = handleTimelineMouseUp
     (handleClipMouseDown afterDropA (pointerAt 120) droppedClip ''v1'' False 1500)"

definition afterUpdate :: editor where
  "afterUpdate = updateSelectedClip afterClick (\<lambda>c. c \<lparr> opacity := 50 \<rparr>)"

section \<open>Properties\<close>

subsection \<open>Fade factor\<close>

lemma calculateFadeFactor_clamped:
  "calculateFadeFactor x ty = clamped_curve_spec ty x"
proof (cases ty)
  case Linear
  then show ?thesis
    by (simp add: calculateFadeFactor_def clamped_curve_spec_def curve_spec_def)
next
  case Smooth
  have "x * x * (3 - 2 * x) = 3 * x ^ 2 - 2 * x ^ 3"
    by (simp add: power2_eq_square power3_eq_cube algebra_simps)
  with Smooth show ?thesis
    by (simp add: calculateFadeFactor_def clamped_curve_spec_def curve_spec_def)
next
  case Buttery
  have "x * x * x * (x * (x * 6 - 15) + 10) = 6 * x ^ 5 - 15 * x ^ 4 + 10 * x ^ 3"
    by (simp add: power2_eq_square power3_eq_cube power4_eq_xxxx algebra_simps
        numeral_eq_Suc)
  with Buttery show ?thesis
    by (simp add: calculateFadeFactor_def clamped_curve_spec_def curve_spec_def)
qed

text \<open>
  C8. The fade factor of a clip at time \<open>t\<close> is the curve of \<open>timeInClip / fadeIn\<close> while
  \<open>timeInClip < fadeIn\<close>, else the curve of \<open>timeFromEnd / fadeOut\<close> while
  \<open>timeFromEnd < fadeOut\<close>, else \<open>1\<close>; the curves are the linear, cubic and quintic
  polynomials of the specification clamped to \<open>0\<close> below \<open>0\<close> and to \<open>1\<close> above \<open>1\<close>; every
  curve is \<open>0\<close> at \<open>0\<close> and \<open>1\<close> at \<open>1\<close>, and the smooth and buttery curves are \<open>1/2\<close> at \<open>1/2\<close>.
\<close>

theorem fade_factor_matches_spec:
  "clipFadeFactor clip t = fadeFactor_spec clip t
   \<and> calculateFadeFactor x ty = clamped_curve_spec ty x
   \<and> calculateFadeFactor 0 ty = 0
   \<and> calculateFadeFactor 1 ty = 1
   \<and> calculateFadeFactor (1/2) Smooth = 1/2
   \<and> calculateFadeFactor (1/2) Buttery = 1/2"
proof -
  have "clipFadeFactor clip t = fadeFactor_spec clip t"
    by (simp add: clipFadeFactor_def fadeFactor_spec_def Let_def calculateFadeFactor_clamped)
  moreover have "calculateFadeFactor (1/2) Smooth = 1/2"
    by (simp add: calculateFadeFactor_def)
  moreover have "calculateFadeFactor (1/2) Buttery = 1/2"
    by (simp add: calculateFadeFactor_def)
  moreover have "calculateFadeFactor 0 ty = 0" "calculateFadeFactor 1 ty = 1"
    by (simp_all add: calculateFadeFactor_def)
  ultimately show ?thesis
    using calculateFadeFactor_clamped [of x ty] by blast
qed

text \<open>
  The scenario of the specification: a clip with \<open>fadeIn = 1\<close>, \<open>fadeOut = 1\<close>,
  \<open>duration = 4\<close> and the linear curve has factor \<open>1/2\<close> half a second after its start and
  half a second before its end.
\<close>

theorem fade_factor_matches_spec_witness:
  "clipFadeFactor (importedClip ''c'' \<lparr> duration := 4, startTime := 2, fadeIn := 1,
       fadeOut := 1, fadeCurve := Linear \<rparr>) (2 + 1/2) = 1/2
   \<and> clipFadeFactor (importedClip ''c'' \<lparr> duration := 4, startTime := 2, fadeIn := 1,
       fadeOut := 1, fadeCurve := Linear \<rparr>) (2 + 7/2) = 1/2"
  using fade_factor_matches_spec
    [of "importedClip ''c'' \<lparr> duration := 4, startTime := 2, fadeIn := 1,
       fadeOut := 1, fadeCurve := Linear \<rparr>" "2 + 1/2" 0 Linear]
    fade_factor_matches_spec
    [of "importedClip ''c'' \<lparr> duration := 4, startTime := 2, fadeIn := 1,
       fadeOut := 1, fadeCurve := Linear \<rparr>" "2 + 7/2" 0 Linear]
  by (simp add: fadeFactor_spec_def clamped_curve_spec_def curve_spec_def importedClip_def)


subsection \<open>Derived timeline extent\<close>

lemma Math_max_Max: "Math_max a xs = Max (insert a (set xs))"
  using Max.set_eq_fold [of a xs] by (simp add: Math_max_def)

text \<open>
  C6 (amended). For a timeline with at least one clip the extent is the greatest of \<open>60\<close> and
  the clip ends, plus \<open>2\<close>; for a timeline with no clip the extent is \<open>60\<close>: the source
  returns before the padding is added.
\<close>

theorem maxTime_extent:
  "maxTime s = (if allClips s = [] then 60 else maxTime_spec s)"
  by (simp add: maxTime_def maxTime_spec_def Math_max_Max)

theorem maxTime_extent_witness:
  "allClips resolverExample \<noteq> [] \<and> maxTime resolverExample = 62 \<and> maxTime initialEditor = 60
   \<and> maxTime (initialEditor \<lparr> videoTracks := [emptyTrack ''v1'' ''Video 1'' \<lparr> clips := [placed ''A'' 70 10] \<rparr>] \<rparr>) = 82"
  using maxTime_extent [of resolverExample] maxTime_extent [of initialEditor]
    maxTime_extent [of "initialEditor \<lparr> videoTracks := [emptyTrack ''v1'' ''Video 1'' \<lparr> clips := [placed ''A'' 70 10] \<rparr>] \<rparr>"]
  by (simp add: maxTime_spec_def allClips_def resolverExample_def initialEditor_def
      emptyTrack_def placed_def importedClip_def)

text \<open>
  C6 as stated fails on the empty timeline: the formula of the claim gives \<open>62\<close> there and the
  code gives \<open>60\<close>.
\<close>

theorem maxTime_empty_counterexample:
  "allClips initialEditor = [] \<and> maxTime initialEditor = 60 \<and> maxTime_spec initialEditor = 62
   \<and> maxTime initialEditor \<noteq> maxTime_spec initialEditor"
  by (simp add: maxTime_def maxTime_spec_def allClips_def initialEditor_def emptyTrack_def)

subsection \<open>Active-clip resolver\<close>

lemma visibleEntry_index:
  "v \<in> set (visibleEntry t (i, tr)) \<Longrightarrow>
     trackIndex v = i \<and> fst (snd v) = tr \<and> \<not> isMuted tr \<and> find (visibleAt t) (clips tr) = Some (fst v)"
  by (auto simp: visibleEntry_def trackIndex_def split: if_splits option.splits)

lemma index_step:
  fixes L :: "nat list"
  assumes "set L \<subseteq> {Suc n..<Suc n + k}" "distinct L" "sorted L" "H = [] \<or> H = [n]"
  shows "set (H @ L) \<subseteq> {n..<n + Suc k} \<and> distinct (H @ L) \<and> sorted (H @ L)"
  using assms by (auto simp: sorted_append)

lemma visible_indices:
  "set (map trackIndex (concat (map (visibleEntry t) (enumerate n tracks)))) \<subseteq> {n..<n + length tracks}
   \<and> distinct (map trackIndex (concat (map (visibleEntry t) (enumerate n tracks))))
   \<and> sorted (map trackIndex (concat (map (visibleEntry t) (enumerate n tracks))))"
proof (induction tracks arbitrary: n)
  case Nil
  then show ?case by simp
next
  case (Cons tr tracks)
  let ?L = "map trackIndex (concat (map (visibleEntry t) (enumerate (Suc n) tracks)))"
  let ?H = "map trackIndex (visibleEntry t (n, tr))"
  have hd: "?H = [] \<or> ?H = [n]"
    by (simp add: visibleEntry_def trackIndex_def split: option.splits)
  have split: "map trackIndex (concat (map (visibleEntry t) (enumerate n (tr # tracks)))) = ?H @ ?L"
    by simp
  from Cons.IH [of "Suc n"] have
    L: "set ?L \<subseteq> {Suc n..<Suc n + length tracks}" "distinct ?L" "sorted ?L" by blast+
  from index_step [OF L hd] show ?case
    unfolding split by simp
qed

lemma find_Some_set: "find P xs = Some x \<Longrightarrow> x \<in> set xs \<and> P x"
  by (induction xs) (auto split: if_splits)

lemma find_None_set: "find P xs = None \<longleftrightarrow> (\<forall>x\<in>set xs. \<not> P x)"
  by (induction xs) auto

lemma activeAudio_None:
  "activeAudio tracks t = None \<Longrightarrow> \<forall>tr\<in>set tracks. isMuted tr \<or> (\<forall>c\<in>set (clips tr). \<not> audibleAt t c)"
  by (induction tracks) (auto split: if_splits option.splits simp: find_None_set)

lemma activeAudio_Some:
  "activeAudio tracks t = Some (c, tr) \<Longrightarrow>
     \<exists>pre post. tracks = pre @ tr # post
       \<and> (\<forall>p\<in>set pre. isMuted p \<or> (\<forall>c\<in>set (clips p). \<not> audibleAt t c))
       \<and> \<not> isMuted tr \<and> find (audibleAt t) (clips tr) = Some c"
proof (induction tracks)
  case Nil
  then show ?case by simp
next
  case (Cons a tracks)
  show ?case
  proof (cases "\<not> isMuted a \<and> find (audibleAt t) (clips a) \<noteq> None")
    case True
    with Cons.prems have "a = tr" "find (audibleAt t) (clips tr) = Some c" by auto
    with True show ?thesis by (intro exI [of _ "[]"] exI [of _ tracks]) simp
  next
    case False
    with Cons.prems have "activeAudio tracks t = Some (c, tr)"
      by (auto split: if_splits option.splits)
    from Cons.IH [OF this] obtain pre post where
      p: "tracks = pre @ tr # post"
         "\<forall>p\<in>set pre. isMuted p \<or> (\<forall>c\<in>set (clips p). \<not> audibleAt t c)"
         "\<not> isMuted tr" "find (audibleAt t) (clips tr) = Some c" by blast
    from False have "isMuted a \<or> (\<forall>c\<in>set (clips a). \<not> audibleAt t c)"
      by (auto simp: find_None_set)
    with p show ?thesis
      by (intro exI [of _ "a # pre"] exI [of _ post]) simp
  qed
qed


lemma visibleClips_entry:
  assumes "(c, tr, i) \<in> set (visibleClips tracks t)"
  shows "i < length tracks \<and> tr = tracks ! i \<and> \<not> isMuted tr \<and> find (visibleAt t) (clips tr) = Some c"
proof -
  from assms obtain p where p: "p \<in> set (enumerate 0 tracks)" "(c, tr, i) \<in> set (visibleEntry t p)"
    by (auto simp: visibleClips_def)
  obtain j tr' where jt: "p = (j, tr')" by (cases p)
  from p(2) visibleEntry_index [of "(c, tr, i)" t j tr'] jt
  have e: "i = j" "tr = tr'" "\<not> isMuted tr'" "find (visibleAt t) (clips tr') = Some c"
    by (simp_all add: trackIndex_def)
  from p(1) jt have "j < length tracks" "tr' = tracks ! j"
    by (simp_all add: in_set_enumerate_eq)
  with e show ?thesis by simp
qed

lemma visibleClips_indices:
  "distinct (map trackIndex (visibleClips tracks t)) \<and> sorted (map trackIndex (visibleClips tracks t))"
proof -
  let ?xs = "concat (map (visibleEntry t) (enumerate 0 tracks))"
  from visible_indices [of t 0 tracks] have "distinct (map trackIndex ?xs)" by blast
  then have "distinct (map trackIndex (sort_key trackIndex ?xs))"
    by (simp add: distinct_map)
  then show ?thesis by (simp add: visibleClips_def)
qed

text \<open>
  C9. The resolver lists at most one clip for each video track: the track indices of the
  visible entries are pairwise different, and each entry is the first clip of its unmuted
  track that is visible at the current time. For the audio lane it answers at most one clip:
  the first clip containing the current time (without look-ahead) of the first unmuted
  audio track, in track order, that has such a clip; every track before it is muted or has no
  such clip, and when there is no answer no unmuted track has one.
\<close>

theorem active_clip_resolver:
  "distinct (map trackIndex (visible (getAllActiveClips s)))
   \<and> (\<forall>v\<in>set (visible (getAllActiveClips s)).
         case v of (c, tr, i) \<Rightarrow>
           i < length (videoTracks s) \<and> tr = videoTracks s ! i \<and> \<not> isMuted tr
           \<and> find (visibleAt (currentVideoTime s)) (clips tr) = Some c)
   \<and> (case (activeAudioClip (getAllActiveClips s), activeAudioTrack (getAllActiveClips s)) of
         (None, None) \<Rightarrow>
           \<forall>tr\<in>set (timelineAudioTracks s).
             isMuted tr \<or> (\<forall>c\<in>set (clips tr). \<not> audibleAt (currentVideoTime s) c)
       | (Some c, Some tr) \<Rightarrow>
           (\<exists>pre post. timelineAudioTracks s = pre @ tr # post
              \<and> (\<forall>p\<in>set pre. isMuted p \<or> (\<forall>c'\<in>set (clips p). \<not> audibleAt (currentVideoTime s) c')))
           \<and> \<not> isMuted tr
           \<and> find (audibleAt (currentVideoTime s)) (clips tr) = Some c
           \<and> startTime c \<le> currentVideoTime s
           \<and> currentVideoTime s < startTime c + duration c
       | _ \<Rightarrow> False)"
proof -
  have one: "distinct (map trackIndex (visible (getAllActiveClips s)))"
    by (simp add: getAllActiveClips_def visibleClips_indices)
  have two: "\<forall>v\<in>set (visible (getAllActiveClips s)).
         case v of (c, tr, i) \<Rightarrow>
           i < length (videoTracks s) \<and> tr = videoTracks s ! i \<and> \<not> isMuted tr
           \<and> find (visibleAt (currentVideoTime s)) (clips tr) = Some c"
    using visibleClips_entry by (auto simp: getAllActiveClips_def)
  have three: "(case (activeAudioClip (getAllActiveClips s), activeAudioTrack (getAllActiveClips s)) of
         (None, None) \<Rightarrow>
           \<forall>tr\<in>set (timelineAudioTracks s).
             isMuted tr \<or> (\<forall>c\<in>set (clips tr). \<not> audibleAt (currentVideoTime s) c)
       | (Some c, Some tr) \<Rightarrow>
           (\<exists>pre post. timelineAudioTracks s = pre @ tr # post
              \<and> (\<forall>p\<in>set pre. isMuted p \<or> (\<forall>c'\<in>set (clips p). \<not> audibleAt (currentVideoTime s) c')))
           \<and> \<not> isMuted tr
           \<and> find (audibleAt (currentVideoTime s)) (clips tr) = Some c
           \<and> startTime c \<le> currentVideoTime s
           \<and> currentVideoTime s < startTime c + duration c
       | _ \<Rightarrow> False)"
  proof (cases "activeAudio (timelineAudioTracks s) (currentVideoTime s)")
    case None
    from activeAudio_None [OF this] None show ?thesis
      by (simp add: getAllActiveClips_def)
  next
    case (Some a)
    obtain c tr where a: "a = (c, tr)" by (cases a)
    from Some a have f: "activeAudio (timelineAudioTracks s) (currentVideoTime s) = Some (c, tr)" by simp
    from activeAudio_Some [OF f] obtain pre post where
      p: "timelineAudioTracks s = pre @ tr # post"
         "\<forall>p\<in>set pre. isMuted p \<or> (\<forall>c\<in>set (clips p). \<not> audibleAt (currentVideoTime s) c)"
         "\<not> isMuted tr" "find (audibleAt (currentVideoTime s)) (clips tr) = Some c" by blast
    from find_Some_set [OF p(4)] have "audibleAt (currentVideoTime s) c" by simp
    then have "startTime c \<le> currentVideoTime s" "currentVideoTime s < startTime c + duration c"
      by (simp_all add: audibleAt_def)
    with p f show ?thesis
      by (auto simp: getAllActiveClips_def)
  qed
  from one two three show ?thesis by blast
qed

text \<open>
  On the example, clip \<open>B\<close> overlaps \<open>A\<close> at the playhead and only \<open>A\<close> is listed; \<open>N1\<close> starts
  within the look-ahead and is not audible, and \<open>P\<close> on the third audio track is not chosen.
\<close>

theorem active_clip_resolver_witness:
  "visible (getAllActiveClips resolverExample) = [(placed ''A'' 0 10, videoTracks resolverExample ! 0, 0)]
   \<and> activeAudioClip (getAllActiveClips resolverExample) = Some (placed ''N2'' 0 10)
   \<and> activeAudioTrack (getAllActiveClips resolverExample) = Some (timelineAudioTracks resolverExample ! 1)
   \<and> visibleAt 4 (placed ''B'' 3 10) \<and> visibleAt 4 (placed ''N1'' (402 / 100) 5)
   \<and> \<not> audibleAt 4 (placed ''N1'' (402 / 100) 5) \<and> audibleAt 4 (placed ''P'' 0 10)"
  using active_clip_resolver [of resolverExample]
  by (simp add: getAllActiveClips_def visibleClips_def visibleEntry_def enumerate_eq_zip
      resolverExample_def initialEditor_def emptyTrack_def placed_def importedClip_def
      visibleAt_def audibleAt_def lookAhead_def upt_rec)


subsection \<open>Split\<close>


lemma pushVideoHistory_tracks [simp]:
  "videoTracks (pushVideoHistory s) = videoTracks s"
  "timelineAudioTracks (pushVideoHistory s) = timelineAudioTracks s"
  by (simp_all add: pushVideoHistory_def Let_def)

text \<open>
  C7. A split whose quantised relative time is below \<open>0.1\<close>, or leaves less than \<open>0.1\<close> of the
  clip after it, changes nothing: both the razor and the split at the playhead return the
  state they were given (so every clip list is unchanged), and neither can throw.
\<close>

theorem split_guard_noop:
  assumes "relativeTime = roundTime (time - startTime clip)"
    and "relativeTime < 0.1 \<or> duration clip - relativeTime < 0.1"
  shows "(videoEditTool s = Razor \<and> getTimelineTimeFromEvent s e = time
            \<longrightarrow> handleClipMouseDown s e clip trackId isAudioTrack now = s)
       \<and> (currentVideoTime s = time
            \<and> find (\<lambda>p. Some (clip_id (fst p)) = selectedClipId s) (taggedClips s) = Some (clip, trackId, isAudio)
            \<longrightarrow> handleSplitAtPlayhead s now = s)"
  using assms by (auto simp: handleClipMouseDown_def handleSplitAtPlayhead_def Let_def)


lemma splitExample_found:
  "find (\<lambda>p. Some (clip_id (fst p)) = selectedClipId (splitExample t)) (taggedClips (splitExample t))
     = Some (placed ''A'' 0 10, ''v1'', False)"
  by (simp add: splitExample_def taggedClips_def initialEditor_def emptyTrack_def placed_def importedClip_def)

lemma pointer_time:
  "getTimelineTimeFromEvent (splitExample t) (pointerAt 121) = 1 / 20"
  "getTimelineTimeFromEvent (splitExample t) (pointerAt 200) = 4"
  by (simp_all add: getTimelineTimeFromEvent_def pointerAt_def splitExample_def initialEditor_def
      HEADER_WIDTH_def roundTime_def round_def)

text \<open>
  On the example a pointer or playhead \<open>0.05\<close> seconds into clip \<open>A\<close> is rejected.
\<close>

theorem split_guard_noop_witness:
  "handleClipMouseDown (splitExample 4) (pointerAt 121) (placed ''A'' 0 10) ''v1'' False 1700 = splitExample 4
   \<and> handleSplitAtPlayhead (splitExample (1 / 20)) 1700 = splitExample (1 / 20)"
proof -
  have r: "1 / 20 = roundTime (1 / 20 - startTime (placed ''A'' 0 10))"
    by (simp add: placed_def importedClip_def roundTime_def round_def)
  have g: "(1 / 20 :: real) < 0.1 \<or> duration (placed ''A'' 0 10) - 1 / 20 < 0.1" by simp
  have razor: "videoEditTool (splitExample 4) = Razor" by (simp add: splitExample_def)
  have t: "currentVideoTime (splitExample (1 / 20)) = 1 / 20" by (simp add: splitExample_def)
  from split_guard_noop [OF r g, where s = "splitExample 4" and e = "pointerAt 121"
        and trackId = "''v1''" and isAudioTrack = False and now = 1700 and isAudio = False]
    split_guard_noop [OF r g, where s = "splitExample (1 / 20)" and e = "pointerAt 121"
        and trackId = "''v1''" and isAudioTrack = False and now = 1700 and isAudio = False]
    razor t pointer_time(1) splitExample_found
  show ?thesis by simp
qed


subsection \<open>Drop onto a track\<close>

lemma getTimelineTimeFromEvent_magnet:
  "getTimelineTimeFromEvent (s \<lparr> isMagnetEnabled := magnet \<rparr>) e = getTimelineTimeFromEvent s e"
  by (simp add: getTimelineTimeFromEvent_def Let_def split: option.splits)

text \<open>
  C5 (amended). A drop onto a track that already holds a clip appends the dropped clip with
  \<open>startTime\<close> equal to the quantised time under the pointer; the magnet flag plays no part,
  so the drop never snaps to a neighbouring clip.
\<close>

theorem drop_uses_drop_time:
  assumes "find (\<lambda>t. track_id t = trackId) (if isAudioTrack then timelineAudioTracks s else videoTracks s)
             = Some track"
    and "clips track \<noteq> []"
    and "newClip = sourceClip \<lparr> clip_id := toString now, startTime := getTimelineTimeFromEvent s e \<rparr>"
  shows "fst (handleTrackDrop (s \<lparr> isMagnetEnabled := magnet \<rparr>) e (Some (JSON_stringify sourceClip))
                trackId isAudioTrack now) = None
       \<and> (if isAudioTrack then timelineAudioTracks else videoTracks)
            (snd (handleTrackDrop (s \<lparr> isMagnetEnabled := magnet \<rparr>) e (Some (JSON_stringify sourceClip))
                trackId isAudioTrack now))
          = map (\<lambda>t. if track_id t = trackId then t \<lparr> clips := clips t @ [newClip] \<rparr> else t)
              ((if isAudioTrack then timelineAudioTracks else videoTracks) s)"
proof (cases isAudioTrack)
  case True
  with assms show ?thesis
    by (simp add: handleTrackDrop_def JSON_stringify_def Let_def getTimelineTimeFromEvent_magnet)
next
  case False
  with assms show ?thesis
    by (simp add: handleTrackDrop_def JSON_stringify_def Let_def getTimelineTimeFromEvent_magnet)
qed

lemma dropExample_time: "getTimelineTimeFromEvent dropExample (pointerAt 135) = 3"
  by (simp add: getTimelineTimeFromEvent_def pointerAt_def dropExample_def initialEditor_def
      HEADER_WIDTH_def roundTime_def)

lemma dropExample_tracks:
  "videoTracks dropExample =
     [emptyTrack ''v1'' ''Video 1'' \<lparr> clips := [placed ''A'' 0 5] \<rparr>, emptyTrack ''v2'' ''Video 2'']"
  by (simp add: dropExample_def)

theorem drop_uses_drop_time_witness:
  "videoTracks (snd (handleTrackDrop dropExample (pointerAt 135) (Some (JSON_stringify (importedClip ''B'')))
       ''v1'' False 1700))
     = [emptyTrack ''v1'' ''Video 1''
          \<lparr> clips := [placed ''A'' 0 5, importedClip ''B'' \<lparr> clip_id := ''1700'', startTime := 3 \<rparr>] \<rparr>,
        emptyTrack ''v2'' ''Video 2'']"
proof -
  have f: "find (\<lambda>t. track_id t = ''v1'') (if False then timelineAudioTracks dropExample else videoTracks dropExample)
             = Some (emptyTrack ''v1'' ''Video 1'' \<lparr> clips := [placed ''A'' 0 5] \<rparr>)"
    by (simp add: dropExample_tracks emptyTrack_def)
  have n: "clips (emptyTrack ''v1'' ''Video 1'' \<lparr> clips := [placed ''A'' 0 5] \<rparr>) \<noteq> []" by simp
  have m: "dropExample \<lparr> isMagnetEnabled := True \<rparr> = dropExample"
    by (simp add: dropExample_def)
  have ts: "toString 1700 = ''1700''" by code_simp
  from drop_uses_drop_time [OF f n refl, where sourceClip = "importedClip ''B''" and now = 1700
      and e = "pointerAt 135" and magnet = True]
  show ?thesis
    by (simp add: m dropExample_time dropExample_tracks ts emptyTrack_def)
qed

text \<open>
  C5 as stated fails: with the magnet on and a threshold of \<open>3\<close> seconds, which covers the
  distance from the drop time \<open>3\<close> to the end of \<open>A\<close> at \<open>5\<close>, the dropped clip starts at \<open>3\<close>.
\<close>

theorem drop_does_not_snap_counterexample:
  "isMagnetEnabled dropExample
   \<and> \<bar>3 - (startTime (placed ''A'' 0 5) + duration (placed ''A'' 0 5))\<bar> < 15 / timelineScale dropExample
   \<and> getTimelineTimeFromEvent dropExample (pointerAt 135) = 3
   \<and> map startTime (clips (hd (videoTracks (snd (handleTrackDrop dropExample (pointerAt 135)
         (Some (JSON_stringify (importedClip ''B''))) ''v1'' False 1700))))) = [0, 3]
   \<and> startTime (last (clips (hd (videoTracks (snd (handleTrackDrop dropExample (pointerAt 135)
         (Some (JSON_stringify (importedClip ''B''))) ''v1'' False 1700)))))) \<noteq> 5"
proof -
  have a: "isMagnetEnabled dropExample" "timelineScale dropExample = 5"
    by (simp_all add: dropExample_def initialEditor_def)
  have b: "startTime (placed ''A'' 0 5) = 0" "duration (placed ''A'' 0 5) = 5"
    by (simp_all add: placed_def)
  have c: "clips (hd (videoTracks (snd (handleTrackDrop dropExample (pointerAt 135)
         (Some (JSON_stringify (importedClip ''B''))) ''v1'' False 1700))))
       = [placed ''A'' 0 5, importedClip ''B'' \<lparr> clip_id := toString 1700, startTime := 3 \<rparr>]"
    by (simp add: handleTrackDrop_def JSON_stringify_def Let_def dropExample_time
        dropExample_tracks emptyTrack_def)
  show ?thesis
    by (simp add: a b c dropExample_time)
qed


subsection \<open>Locked tracks\<close>

lemma unlock_fields [simp]:
  "track_id (unlock t) = track_id t" "clips (unlock t) = clips t" "isMuted (unlock t) = isMuted t"
  "isLocked (unlock t) = False"
  by (simp_all add: unlock_def)

lemma unlockAll_fields [simp]:
  "videoTracks (unlockAll s) = map unlock (videoTracks s)"
  "timelineAudioTracks (unlockAll s) = map unlock (timelineAudioTracks s)"
  "videoEditTool (unlockAll s) = videoEditTool s"
  "isScrubbing (unlockAll s) = isScrubbing s"
  "draggingClipId (unlockAll s) = draggingClipId s"
  "isMagnetEnabled (unlockAll s) = isMagnetEnabled s"
  "timelineScale (unlockAll s) = timelineScale s"
  "dragStartX (unlockAll s) = dragStartX s"
  "dragOriginalStartTime (unlockAll s) = dragOriginalStartTime s"
  by (simp_all add: unlockAll_def)

lemma getTimelineTimeFromEvent_unlockAll [simp]:
  "getTimelineTimeFromEvent (unlockAll s) e = getTimelineTimeFromEvent s e"
  by (simp add: getTimelineTimeFromEvent_def Let_def split: option.splits)

lemma allClips_unlockAll [simp]: "allClips (unlockAll s) = allClips s"
  by (simp add: allClips_def comp_def)

lemma magnetSnap_unlockAll [simp]: "magnetSnap (unlockAll s) v = magnetSnap s v"
  by (simp add: magnetSnap_def)

lemma updateTracks_unlock:
  "updateTracks trackId clip clipA clipB (map unlock tracks)
     = map unlock (updateTracks trackId clip clipA clipB tracks)"
  by (simp add: updateTracks_def unlock_def)

lemma updateTracks_isLocked:
  "map isLocked (updateTracks trackId clip clipA clipB tracks) = map isLocked tracks"
  by (simp add: updateTracks_def comp_def)

lemma find_track_unlock:
  "find (\<lambda>t. track_id t = trackId) (map unlock tracks)
     = map_option unlock (find (\<lambda>t. track_id t = trackId) tracks)"
  by (induction tracks) simp_all

lemma razor_ignores_lock:
  "locksIgnored s (handleClipMouseDown s e clip trackId isAudioTrack now)
     (handleClipMouseDown (unlockAll s) e clip trackId isAudioTrack now)"
  by (simp add: locksIgnored_def handleClipMouseDown_def Let_def updateTracks_unlock
      updateTracks_isLocked)

lemma move_ignores_lock:
  "locksIgnored s (handleTimelineMouseMove s e) (handleTimelineMouseMove (unlockAll s) e)"
  by (simp add: locksIgnored_def handleTimelineMouseMove_def Let_def comp_def unlock_def)

lemma drop_ignores_lock:
  "locksIgnored s (snd (handleTrackDrop s e clipData trackId isAudioTrack now))
     (snd (handleTrackDrop (unlockAll s) e clipData trackId isAudioTrack now))"
proof -
  have e: "(case map_option unlock x of None \<Rightarrow> False | Some track \<Rightarrow> length (clips track) = 0)
         = (case x of None \<Rightarrow> False | Some track \<Rightarrow> length (clips track) = 0)" for x
    by (cases x) simp_all
  show ?thesis
    by (cases isAudioTrack)
       (simp_all add: locksIgnored_def handleTrackDrop_def Let_def comp_def find_track_unlock e
          unlock_def split: option.splits sum.splits)
qed

text \<open>
  C3 (amended). The lock flag of a track is stored and kept, and no handler reads it: the
  pointer-down on a clip (razor split or start of a drag), the move of the dragged clip and
  the drop onto a track act on a timeline with locked tracks exactly as on the same timeline
  with every lock cleared, and leave the lock flags as they were.
\<close>

theorem lock_flag_not_consulted:
  "locksIgnored s (handleClipMouseDown s e clip trackId isAudioTrack now)
     (handleClipMouseDown (unlockAll s) e clip trackId isAudioTrack now)
   \<and> locksIgnored s (handleTimelineMouseMove s e) (handleTimelineMouseMove (unlockAll s) e)
   \<and> locksIgnored s (snd (handleTrackDrop s e clipData trackId isAudioTrack now))
     (snd (handleTrackDrop (unlockAll s) e clipData trackId isAudioTrack now))"
  using razor_ignores_lock move_ignores_lock drop_ignores_lock by blast

lemma lockedExample_tracks:
  "videoTracks lockedExample =
     [emptyTrack ''v1'' ''Video 1'' \<lparr> clips := [placed ''A'' 0 10], isLocked := True \<rparr>,
      emptyTrack ''v2'' ''Video 2'']"
  by (simp add: lockedExample_def)

lemma lockedExample_fields:
  "videoEditTool lockedExample = Razor" "timelineScale lockedExample = 20"
  "isMagnetEnabled lockedExample" "isScrubbing lockedExample = False"
  "timelineAudioTracks lockedExample = [emptyTrack ''a1'' ''Audio 1'']"
  by (simp_all add: lockedExample_def splitExample_def initialEditor_def)

lemma lockedExample_time: "getTimelineTimeFromEvent lockedExample (pointerAt 200) = 4"
  by (simp add: getTimelineTimeFromEvent_def pointerAt_def lockedExample_fields
      HEADER_WIDTH_def roundTime_def)

text \<open>
  On the example the razor cuts clip \<open>A\<close> of the locked track as it would on the unlocked one,
  and the track stays locked.
\<close>

theorem lock_flag_not_consulted_witness:
  "map clips (videoTracks (handleClipMouseDown lockedExample (pointerAt 200) (placed ''A'' 0 10) ''v1'' False 1700))
     = map clips (videoTracks (handleClipMouseDown (unlockAll lockedExample) (pointerAt 200) (placed ''A'' 0 10) ''v1'' False 1700))
   \<and> map isLocked (videoTracks (handleClipMouseDown lockedExample (pointerAt 200) (placed ''A'' 0 10) ''v1'' False 1700))
     = [True, False]"
proof -
  from lock_flag_not_consulted [of lockedExample "pointerAt 200" "placed ''A'' 0 10" "''v1''" False 1700]
  have "locksIgnored lockedExample
     (handleClipMouseDown lockedExample (pointerAt 200) (placed ''A'' 0 10) ''v1'' False 1700)
     (handleClipMouseDown (unlockAll lockedExample) (pointerAt 200) (placed ''A'' 0 10) ''v1'' False 1700)"
    by blast
  then show ?thesis
    by (simp add: locksIgnored_def comp_def lockedExample_tracks emptyTrack_def)
qed

text \<open>
  C3 as stated fails: on the locked track of the example the razor splits clip \<open>A\<close>, a drag
  moves it to \<open>10\<close>, and a drop appends a clip.
\<close>

theorem locked_track_is_edited_counterexample:
  "isLocked (hd (videoTracks lockedExample))
   \<and> clips (hd (videoTracks lockedExample)) = [placed ''A'' 0 10]
   \<and> length (clips (hd (videoTracks (handleClipMouseDown lockedExample (pointerAt 200)
        (placed ''A'' 0 10) ''v1'' False 1700)))) = 2
   \<and> map startTime (clips (hd (videoTracks (handleTimelineMouseMove
        (handleClipMouseDown (lockedExample \<lparr> videoEditTool := Move \<rparr>) (pointerAt 200)
           (placed ''A'' 0 10) ''v1'' False 1700) (pointerAt 400))))) = [10]
   \<and> length (clips (hd (videoTracks (snd (handleTrackDrop lockedExample (pointerAt 200)
        (Some (JSON_stringify (importedClip ''B''))) ''v1'' False 1700))))) = 2"
proof -
  have a: "isLocked (hd (videoTracks lockedExample))"
    "clips (hd (videoTracks lockedExample)) = [placed ''A'' 0 10]"
    by (simp_all add: lockedExample_tracks)
  have b: "length (clips (hd (videoTracks (handleClipMouseDown lockedExample (pointerAt 200)
        (placed ''A'' 0 10) ''v1'' False 1700)))) = 2"
    by (simp add: handleClipMouseDown_def Let_def lockedExample_fields lockedExample_time
        lockedExample_tracks updateTracks_def emptyTrack_def placed_def importedClip_def
        roundTime_def)
  have c: "map startTime (clips (hd (videoTracks (handleTimelineMouseMove
        (handleClipMouseDown (lockedExample \<lparr> videoEditTool := Move \<rparr>) (pointerAt 200)
           (placed ''A'' 0 10) ''v1'' False 1700) (pointerAt 400))))) = [10]"
    by (simp add: handleClipMouseDown_def handleTimelineMouseMove_def Let_def magnetSnap_def
        snapStep_def allClips_def lockedExample_fields lockedExample_tracks pointerAt_def
        emptyTrack_def placed_def importedClip_def roundTime_def)
  have d: "length (clips (hd (videoTracks (snd (handleTrackDrop lockedExample (pointerAt 200)
        (Some (JSON_stringify (importedClip ''B''))) ''v1'' False 1700))))) = 2"
    by (simp add: handleTrackDrop_def JSON_stringify_def Let_def lockedExample_tracks
        emptyTrack_def)
  from a b c d show ?thesis by blast
qed


subsection \<open>Magnet snap during a move\<close>

lemma snapStep_overwrite:
  "snapStep dragging thr other v =
     (if Some (clip_id other) = dragging then v
      else overwrite thr (overwrite thr v (startTime other + duration other)) (startTime other))"
  by (simp add: snapStep_def overwrite_def Let_def)

lemma snapLoop_foldl:
  "snapLoop dragging thr cs v = foldl (overwrite thr) v (snapCandidates dragging cs)"
proof (induction cs arbitrary: v)
  case Nil
  then show ?case by (simp add: snapCandidates_def)
next
  case (Cons c cs)
  have "snapCandidates dragging (c # cs) =
          (if Some (clip_id c) = dragging then [] else [startTime c + duration c, startTime c])
          @ snapCandidates dragging cs"
    by (simp add: snapCandidates_def)
  then show ?case
    by (simp add: Cons.IH snapStep_overwrite)
qed

lemma foldl_overwrite_range:
  "foldl (overwrite thr) v bs = v \<or> foldl (overwrite thr) v bs \<in> set bs"
proof (induction bs rule: rev_induct)
  case Nil
  then show ?case by simp
next
  case (snoc b bs)
  then show ?case by (auto simp: overwrite_def)
qed

lemma foldl_overwrite_stays:
  "\<forall>a\<in>set later. \<not> \<bar>v - a\<bar> < thr \<Longrightarrow> foldl (overwrite thr) v later = v"
  by (induction later) (simp_all add: overwrite_def)

lemma foldl_overwrite_last_match:
  assumes "bs = before @ b # later" "\<bar>foldl (overwrite thr) v before - b\<bar> < thr"
    "\<forall>a\<in>set later. \<not> \<bar>b - a\<bar> < thr"
  shows "foldl (overwrite thr) v bs = b"
proof -
  have "foldl (overwrite thr) v bs = foldl (overwrite thr) (overwrite thr (foldl (overwrite thr) v before) b) later"
    by (simp add: assms(1))
  also have "overwrite thr (foldl (overwrite thr) v before) b = b"
    using assms(2) by (simp add: overwrite_def)
  finally show ?thesis
    using foldl_overwrite_stays [OF assms(3)] by simp
qed

text \<open>
  C10. During a move with the magnet on, the start time written to the dragged clip is found
  by going through the boundaries of the other clips in iteration order over all tracks, the
  end of each clip before its start; a boundary within the threshold \<open>15 / scale\<close> of the value
  chosen so far replaces that value, and a final value below the threshold becomes \<open>0\<close>. The
  result is the candidate, \<open>0\<close> or a boundary, and it is the last boundary that matched: a
  boundary that matches at its turn, with no later boundary within the threshold of it, is
  the value chosen, whatever its distance to the candidate.
\<close>

theorem magnet_snap_last_match:
  assumes "\<not> isScrubbing s" "truthy (draggingClipId s)" "videoEditTool s = Move" "isMagnetEnabled s"
    and "candidate = max 0 (roundTime (dragOriginalStartTime s + (clientX e - dragStartX s) / timelineScale s))"
    and "snapThreshold = 15 / timelineScale s"
    and "boundaries = snapCandidates (draggingClipId s) (allClips s)"
    and "chosen = foldl (overwrite snapThreshold) candidate boundaries"
    and "final = (if chosen < snapThreshold then 0 else chosen)"
    and "place = map (\<lambda>t. t \<lparr> clips := map (\<lambda>c. if Some (clip_id c) = draggingClipId s
                                            then c \<lparr> startTime := final \<rparr> else c) (clips t) \<rparr>)"
  shows "videoTracks (handleTimelineMouseMove s e) = place (videoTracks s)
       \<and> timelineAudioTracks (handleTimelineMouseMove s e) = place (timelineAudioTracks s)
       \<and> (final = candidate \<or> final = 0 \<or> final \<in> set boundaries)
       \<and> (\<forall>before b later.
             boundaries = before @ b # later
             \<and> \<bar>foldl (overwrite snapThreshold) candidate before - b\<bar> < snapThreshold
             \<and> (\<forall>a\<in>set later. \<not> \<bar>b - a\<bar> < snapThreshold)
             \<longrightarrow> chosen = b)"
proof -
  have c: "(if roundTime x < 0 then 0 else roundTime x) = max 0 (roundTime x)" for x
    by (simp add: max_def)
  have m: "magnetSnap s candidate = final"
    using assms(6-9) by (simp add: magnetSnap_def Let_def snapLoop_foldl)
  have moved: "videoTracks (handleTimelineMouseMove s e) = place (videoTracks s)
       \<and> timelineAudioTracks (handleTimelineMouseMove s e) = place (timelineAudioTracks s)"
    using assms(1-4) m
    by (simp add: handleTimelineMouseMove_def Let_def c assms(5) [symmetric] assms(10))
  have range: "final = candidate \<or> final = 0 \<or> final \<in> set boundaries"
    using foldl_overwrite_range [of snapThreshold candidate boundaries] assms(8,9) by auto
  have last: "\<forall>before b later.
             boundaries = before @ b # later
             \<and> \<bar>foldl (overwrite snapThreshold) candidate before - b\<bar> < snapThreshold
             \<and> (\<forall>a\<in>set later. \<not> \<bar>b - a\<bar> < snapThreshold)
             \<longrightarrow> chosen = b"
    using foldl_overwrite_last_match [of boundaries _ _ _ snapThreshold candidate] assms(8)
    by blast
  from moved range last show ?thesis by blast
qed


lemma placed_fields:
  "clip_id (placed i start len) = i" "startTime (placed i start len) = start"
  "duration (placed i start len) = len"
  by (simp_all add: placed_def importedClip_def)

lemma snapExample_fields:
  "isScrubbing snapExample = False" "draggingClipId snapExample = Some ''D''"
  "videoEditTool snapExample = Move" "isMagnetEnabled snapExample"
  "timelineScale snapExample = 20" "dragStartX snapExample = 0"
  "dragOriginalStartTime snapExample = 0"
  "videoTracks snapExample =
     [emptyTrack ''v1'' ''Video 1'' \<lparr> clips := [placed ''D'' 0 2] \<rparr>,
      emptyTrack ''v2'' ''Video 2'' \<lparr> clips := [placed ''X'' (11 / 10) 2] \<rparr>]"
  "timelineAudioTracks snapExample = [emptyTrack ''a1'' ''Audio 1'' \<lparr> clips := [placed ''Y'' (36 / 10) 2] \<rparr>]"
  by (simp_all add: snapExample_def initialEditor_def)

lemma snapExample_boundaries:
  "snapCandidates (Some ''D'') (allClips snapExample) = [31 / 10, 11 / 10, 56 / 10, 36 / 10]"
  by (simp add: snapCandidates_def allClips_def snapExample_fields emptyTrack_def placed_def
      importedClip_def)

text \<open>
  On the example the candidate is \<open>3\<close>; the end of \<open>X\<close> at \<open>3.1\<close> is the nearest boundary and
  matches first, then the start of \<open>Y\<close> at \<open>3.6\<close> matches the value \<open>3.1\<close> and is the result.
\<close>

theorem magnet_snap_last_match_witness:
  "map (map startTime \<circ> clips) (videoTracks (handleTimelineMouseMove snapExample (pointerAt 60)))
     = [[36 / 10], [11 / 10]]
   \<and> \<bar>3 - 31 / 10\<bar> < \<bar>3 - 36 / (10 :: real)\<bar>
   \<and> \<bar>3 - 36 / 10\<bar> < 15 / timelineScale snapExample"
proof -
  have cand: "3 = max 0 (roundTime (dragOriginalStartTime snapExample
        + (clientX (pointerAt 60) - dragStartX snapExample) / timelineScale snapExample))"
    by (simp add: snapExample_fields pointerAt_def roundTime_def)
  have chosen: "36 / 10 = foldl (overwrite (15 / timelineScale snapExample)) 3
        (snapCandidates (draggingClipId snapExample) (allClips snapExample))"
    by (simp add: snapExample_boundaries snapExample_fields overwrite_def)
  have final: "36 / 10 = (if (36 / 10 :: real) < 15 / timelineScale snapExample then 0 else 36 / 10)"
    by (simp add: snapExample_fields)
  have pre: "\<not> isScrubbing snapExample" "truthy (draggingClipId snapExample)"
    "videoEditTool snapExample = Move" "isMagnetEnabled snapExample"
    by (simp_all add: snapExample_fields)
  from magnet_snap_last_match [OF pre cand refl refl chosen final refl]
  have "videoTracks (handleTimelineMouseMove snapExample (pointerAt 60))
      = map (\<lambda>t. t \<lparr> clips := map (\<lambda>c. if Some (clip_id c) = draggingClipId snapExample
                                            then c \<lparr> startTime := 36 / 10 \<rparr> else c) (clips t) \<rparr>)
          (videoTracks snapExample)"
    by blast
  then show ?thesis
    by (simp add: snapExample_fields emptyTrack_def placed_fields)
qed


subsection \<open>History discipline\<close>

lemma js_index_last: "xs \<noteq> [] \<Longrightarrow> js_index xs (int (length xs) - 1) = Some (last xs)"
  by (cases xs rule: rev_cases) (simp_all add: js_index_def nth_append)

text \<open>
  After a push the entry under the cursor is the snapshot of the state that was pushed, also
  when the oldest entry was dropped.
\<close>

lemma pushVideoHistory_cursor:
  "parse_entry (videoHistory (pushVideoHistory s)) (videoHistoryIndex (pushVideoHistory s))
     = Inr (currentSnapshot s)"
proof -
  define pushed where
    "pushed = slice0 (videoHistory s) (videoHistoryIndex s + 1) @ [JSON_stringify (currentSnapshot s)]"
  define newHistory where "newHistory = (if length pushed > 20 then tl pushed else pushed)"
  have h: "videoHistory (pushVideoHistory s) = newHistory"
    "videoHistoryIndex (pushVideoHistory s) = int (length newHistory) - 1"
    by (simp_all add: pushVideoHistory_def Let_def pushed_def newHistory_def)
  have l: "last pushed = JSON_stringify (currentSnapshot s)" "pushed \<noteq> []"
    by (simp_all add: pushed_def)
  have "newHistory \<noteq> [] \<and> last newHistory = JSON_stringify (currentSnapshot s)"
  proof (cases "length pushed > 20")
    case True
    then have "tl pushed \<noteq> []" by (cases pushed) auto
    with True l show ?thesis by (simp add: newHistory_def last_tl)
  next
    case False
    with l show ?thesis by (simp add: newHistory_def)
  qed
  with js_index_last [of newHistory] show ?thesis
    by (simp add: h parse_entry_def JSON_stringify_def)
qed

text \<open>
  Drop, split, delete and mute-toggle push first: the entry under the cursor afterwards is
  the timeline from before the operation. A property update and a move of the dragged clip
  push nothing; the end of the drag pushes the timeline as the move left it.
\<close>

lemma push_first_handlers:
  "truthy (selectedClipId s) \<Longrightarrow>
     parse_entry (videoHistory (handleDeleteClip s)) (videoHistoryIndex (handleDeleteClip s))
       = Inr (currentSnapshot s)"
  "parse_entry (videoHistory (toggleTrackMute s trackId isAudioTrack))
       (videoHistoryIndex (toggleTrackMute s trackId isAudioTrack)) = Inr (currentSnapshot s)"
  "parse_entry (videoHistory (snd (handleTrackDrop s e (Some (JSON_stringify c)) trackId isAudioTrack now)))
       (videoHistoryIndex (snd (handleTrackDrop s e (Some (JSON_stringify c)) trackId isAudioTrack now)))
       = Inr (currentSnapshot s)"
  "videoEditTool s = Razor \<Longrightarrow>
     \<not> (roundTime (getTimelineTimeFromEvent s e - startTime clip) < 0.1
        \<or> duration clip - roundTime (getTimelineTimeFromEvent s e - startTime clip) < 0.1) \<Longrightarrow>
     parse_entry (videoHistory (handleClipMouseDown s e clip trackId isAudioTrack now))
       (videoHistoryIndex (handleClipMouseDown s e clip trackId isAudioTrack now))
       = Inr (currentSnapshot s)"
  using pushVideoHistory_cursor [of s]
  by (simp_all add: handleDeleteClip_def toggleTrackMute_def handleTrackDrop_def
      handleClipMouseDown_def Let_def JSON_stringify_def)

lemma no_push_handlers:
  "videoHistory (updateSelectedClip s merge) = videoHistory s"
  "videoHistoryIndex (updateSelectedClip s merge) = videoHistoryIndex s"
  "videoHistory (handleTimelineMouseMove s e) = videoHistory s"
  "videoHistoryIndex (handleTimelineMouseMove s e) = videoHistoryIndex s"
  by (simp_all add: updateSelectedClip_def handleTimelineMouseMove_def Let_def)

lemma mouse_up_pushes_moved_timeline:
  "truthy (draggingClipId s) \<Longrightarrow>
     parse_entry (videoHistory (handleTimelineMouseUp s)) (videoHistoryIndex (handleTimelineMouseUp s))
       = Inr (currentSnapshot s)"
  using pushVideoHistory_cursor [of s] by (simp add: handleTimelineMouseUp_def)


lemma toString_stamps: "toString 1000 = ''1000''" "toString 2000 = ''2000''"
  by code_simp+

lemma mountedEditor_eq:
  "mountedEditor = initialEditor
     \<lparr> videoHistory := [Stringified (currentSnapshot initialEditor)], videoHistoryIndex := 0 \<rparr>"
  by (simp add: mountedEditor_def pushVideoHistory_def Let_def slice0_def JSON_stringify_def
      initialEditor_def)

lemma initial_tracks:
  "videoTracks initialEditor =
     [emptyTrack ''v1'' ''Video 1'', emptyTrack ''v2'' ''Video 2'', emptyTrack ''v3'' ''Text/FX'']"
  "timelineAudioTracks initialEditor = [emptyTrack ''a1'' ''Audio 1'']"
  "timelineScale initialEditor = 20"
  by (simp_all add: initialEditor_def)

lemma afterDropA_eq:
  "afterDropA = initialEditor
     \<lparr> videoTracks :=
         [emptyTrack ''v1'' ''Video 1'' \<lparr> clips := [importedClip ''pool1'' \<lparr> clip_id := ''1000'', startTime := 0 \<rparr>] \<rparr>,
          emptyTrack ''v2'' ''Video 2'', emptyTrack ''v3'' ''Text/FX''],
       videoHistory := [Stringified (currentSnapshot initialEditor), Stringified (currentSnapshot initialEditor)],
       videoHistoryIndex := 1 \<rparr>"
  by (simp add: afterDropA_def handleTrackDrop_def Let_def JSON_stringify_def mountedEditor_eq
      pushVideoHistory_def slice0_def currentSnapshot_def initial_tracks emptyTrack_def
      toString_stamps)

lemma dropB_time: "getTimelineTimeFromEvent afterDropA (pointerAt 420) = 15"
  by (simp add: getTimelineTimeFromEvent_def pointerAt_def afterDropA_eq initial_tracks
      HEADER_WIDTH_def roundTime_def)

lemma afterDropB_eq:
  "afterDropB = initialEditor
     \<lparr> videoTracks :=
         [emptyTrack ''v1'' ''Video 1''
            \<lparr> clips := [importedClip ''pool1'' \<lparr> clip_id := ''1000'', startTime := 0 \<rparr>,
                        importedClip ''pool2'' \<lparr> clip_id := ''2000'', startTime := 15 \<rparr>] \<rparr>,
          emptyTrack ''v2'' ''Video 2'', emptyTrack ''v3'' ''Text/FX''],
       videoHistory := [Stringified (currentSnapshot initialEditor), Stringified (currentSnapshot initialEditor),
                        Stringified (currentSnapshot afterDropA)],
       videoHistoryIndex := 2 \<rparr>"
  unfolding afterDropB_def handleTrackDrop_def dropB_time
  by (simp add: Let_def JSON_stringify_def afterDropA_eq
      pushVideoHistory_def slice0_def currentSnapshot_def emptyTrack_def
      toString_stamps)

text \<open>
  C2 fails on the code. The claim is that every operation pushes the state from before it, so
  that a single undo right after the operation brings that state back. In the session with
  two drops each drop does push the timeline from before it, but the cursor then rests on
  that snapshot and undo steps one entry further back before it restores: a single undo
  after the second drop restores the snapshot taken before the first drop, so both clips are
  gone instead of the second one.
\<close>

theorem undo_after_second_drop_restores_older_state:
  "map (map clip_id \<circ> clips) (videoTracks afterDropA) = [[''1000''], [], []]
   \<and> map (map clip_id \<circ> clips) (videoTracks afterDropB) = [[''1000'', ''2000''], [], []]
   \<and> fst (handleVideoUndo afterDropB) = None
   \<and> map (map clip_id \<circ> clips) (videoTracks (snd (handleVideoUndo afterDropB))) = [[], [], []]
   \<and> videoTracks (snd (handleVideoUndo afterDropB)) = videoTracks initialEditor
   \<and> videoTracks (snd (handleVideoUndo afterDropB)) \<noteq> videoTracks afterDropA"
proof -
  have a: "map (map clip_id \<circ> clips) (videoTracks afterDropA) = [[''1000''], [], []]"
    by (simp add: afterDropA_eq emptyTrack_def)
  have b: "map (map clip_id \<circ> clips) (videoTracks afterDropB) = [[''1000'', ''2000''], [], []]"
    by (simp add: afterDropB_eq emptyTrack_def)
  have u: "handleVideoUndo afterDropB
      = (None, afterDropB \<lparr> videoHistoryIndex := 1, videoTracks := videoTracks initialEditor,
                            timelineAudioTracks := timelineAudioTracks initialEditor \<rparr>)"
    by (simp add: handleVideoUndo_def Let_def afterDropB_eq parse_entry_def js_index_def
        currentSnapshot_def)
  have c: "map (map clip_id \<circ> clips) (videoTracks initialEditor) = [[], [], []]"
    by (simp add: initial_tracks emptyTrack_def)
  from a c have d: "videoTracks initialEditor \<noteq> videoTracks afterDropA" by auto
  from a b c d show ?thesis by (simp add: u)
qed


lemma split_at_playhead_pushes_first:
  assumes "truthy (selectedClipId s)"
    and "find (\<lambda>p. Some (clip_id (fst p)) = selectedClipId s) (taggedClips s) = Some (clip, trackId, isAudio)"
    and "\<not> (roundTime (currentVideoTime s - startTime clip) < 0.1
           \<or> duration clip - roundTime (currentVideoTime s - startTime clip) < 0.1)"
  shows "parse_entry (videoHistory (handleSplitAtPlayhead s now)) (videoHistoryIndex (handleSplitAtPlayhead s now))
           = Inr (currentSnapshot s)"
  using assms pushVideoHistory_cursor [of s]
  by (simp add: handleSplitAtPlayhead_def Let_def)

text \<open>
  Which handlers push, and what: delete, mute-toggle, drop onto a track and both splits push
  the timeline from before the operation; a move of the dragged clip pushes nothing, and the
  end of the drag pushes the timeline as the move left it.
\<close>

lemma history_push_discipline:
  "(truthy (selectedClipId s) \<longrightarrow>
      parse_entry (videoHistory (handleDeleteClip s)) (videoHistoryIndex (handleDeleteClip s))
        = Inr (currentSnapshot s))
   \<and> parse_entry (videoHistory (toggleTrackMute s trackId isAudioTrack))
        (videoHistoryIndex (toggleTrackMute s trackId isAudioTrack)) = Inr (currentSnapshot s)
   \<and> parse_entry (videoHistory (snd (handleTrackDrop s e (Some (JSON_stringify c)) trackId isAudioTrack now)))
        (videoHistoryIndex (snd (handleTrackDrop s e (Some (JSON_stringify c)) trackId isAudioTrack now)))
        = Inr (currentSnapshot s)
   \<and> (videoEditTool s = Razor
        \<and> \<not> (roundTime (getTimelineTimeFromEvent s e - startTime clip) < 0.1
              \<or> duration clip - roundTime (getTimelineTimeFromEvent s e - startTime clip) < 0.1) \<longrightarrow>
      parse_entry (videoHistory (handleClipMouseDown s e clip trackId isAudioTrack now))
        (videoHistoryIndex (handleClipMouseDown s e clip trackId isAudioTrack now))
        = Inr (currentSnapshot s))
   \<and> (truthy (selectedClipId s)
        \<and> find (\<lambda>p. Some (clip_id (fst p)) = selectedClipId s) (taggedClips s) = Some (clip, trackId, isAudio)
        \<and> \<not> (roundTime (currentVideoTime s - startTime clip) < 0.1
              \<or> duration clip - roundTime (currentVideoTime s - startTime clip) < 0.1) \<longrightarrow>
      parse_entry (videoHistory (handleSplitAtPlayhead s now)) (videoHistoryIndex (handleSplitAtPlayhead s now))
        = Inr (currentSnapshot s))
   \<and> videoHistory (handleTimelineMouseMove s e) = videoHistory s
   \<and> videoHistoryIndex (handleTimelineMouseMove s e) = videoHistoryIndex s
   \<and> (truthy (draggingClipId s) \<longrightarrow>
      parse_entry (videoHistory (handleTimelineMouseUp s)) (videoHistoryIndex (handleTimelineMouseUp s))
        = Inr (currentSnapshot s))"
  using push_first_handlers [of s] split_at_playhead_pushes_first [of s clip trackId isAudio now]
    no_push_handlers(3,4) [of s e] mouse_up_pushes_moved_timeline [of s]
  by blast

lemma whileDragging_eq:
  "whileDragging = afterDropA
     \<lparr> videoTracks :=
         [emptyTrack ''v1'' ''Video 1'' \<lparr> clips := [droppedClip \<lparr> startTime := 10 \<rparr>] \<rparr>,
          emptyTrack ''v2'' ''Video 2'', emptyTrack ''v3'' ''Text/FX''],
       selectedClipId := Some ''1000'', draggingClipId := Some ''1000'',
       dragStartX := 120, dragOriginalStartTime := 0 \<rparr>"
  by (simp add: whileDragging_def handleTimelineMouseMove_def handleClipMouseDown_def Let_def
      afterDropA_eq droppedClip_def magnetSnap_def snapStep_def allClips_def initial_tracks
      emptyTrack_def pointerAt_def roundTime_def initialEditor_def importedClip_def)

text \<open>
  A move leaves no snapshot of the timeline from before it. In the session the drag takes the
  clip from \<open>0\<close> to \<open>10\<close> without a push; the snapshot pushed at the end of the drag holds the
  clip at \<open>10\<close>; no entry of the history holds the timeline from before the move, and a
  single undo does not bring it back.
\<close>

lemma move_is_pushed_after_the_drag:
  "map (map startTime \<circ> clips) (videoTracks afterDropA) = [[0], [], []]
   \<and> map (map startTime \<circ> clips) (videoTracks whileDragging) = [[10], [], []]
   \<and> videoHistory whileDragging = videoHistory afterDropA
   \<and> videoHistoryIndex whileDragging = videoHistoryIndex afterDropA
   \<and> parse_entry (videoHistory afterMove) (videoHistoryIndex afterMove) = Inr (currentSnapshot whileDragging)
   \<and> fst (handleVideoUndo afterMove) = None
   \<and> videoTracks (snd (handleVideoUndo afterMove)) \<noteq> videoTracks afterDropA
   \<and> (\<forall>i. parse_entry (videoHistory afterMove) i \<noteq> Inr (currentSnapshot afterDropA))"
proof -
  have a: "map (map startTime \<circ> clips) (videoTracks afterDropA) = [[0], [], []]"
    by (simp add: afterDropA_eq emptyTrack_def)
  have b: "map (map startTime \<circ> clips) (videoTracks whileDragging) = [[10], [], []]"
    by (simp add: whileDragging_eq emptyTrack_def droppedClip_def)
  have c: "videoHistory whileDragging = videoHistory afterDropA"
    "videoHistoryIndex whileDragging = videoHistoryIndex afterDropA"
    by (simp_all add: whileDragging_eq)
  have h: "videoHistory afterMove
      = [Stringified (currentSnapshot initialEditor), Stringified (currentSnapshot initialEditor),
         Stringified (currentSnapshot whileDragging)]"
    "videoHistoryIndex afterMove = 2"
    by (simp_all add: afterMove_def handleTimelineMouseUp_def pushVideoHistory_def Let_def
        slice0_def JSON_stringify_def c afterDropA_eq whileDragging_eq [THEN arg_cong, of draggingClipId])
  have d: "parse_entry (videoHistory afterMove) (videoHistoryIndex afterMove) = Inr (currentSnapshot whileDragging)"
    by (simp add: h parse_entry_def js_index_def)
  have u: "handleVideoUndo afterMove
      = (None, afterMove \<lparr> videoHistoryIndex := 1, videoTracks := videoTracks initialEditor,
                           timelineAudioTracks := timelineAudioTracks initialEditor \<rparr>)"
    by (simp add: handleVideoUndo_def Let_def h parse_entry_def js_index_def currentSnapshot_def)
  have i: "map (map startTime \<circ> clips) (videoTracks initialEditor) = [[], [], []]"
    by (simp add: initial_tracks emptyTrack_def)
  from a i have e: "videoTracks initialEditor \<noteq> videoTracks afterDropA" by auto
  from a b have f: "videoTracks whileDragging \<noteq> videoTracks afterDropA" by auto
  have n: "parse_entry (videoHistory afterMove) j \<noteq> Inr (currentSnapshot afterDropA)" for j
  proof -
    have "js_index (videoHistory afterMove) j \<in> {None, Some (Stringified (currentSnapshot initialEditor)),
        Some (Stringified (currentSnapshot whileDragging))}"
      by (auto simp: h js_index_def nth_Cons split: nat.splits)
    moreover have "currentSnapshot initialEditor \<noteq> currentSnapshot afterDropA"
      using e by (auto simp: currentSnapshot_def)
    moreover have "currentSnapshot whileDragging \<noteq> currentSnapshot afterDropA"
      using f by (auto simp: currentSnapshot_def)
    ultimately show ?thesis by (auto simp: parse_entry_def)
  qed
  from a b c d e n show ?thesis by (simp add: u)
qed


text \<open>
  A property update pushes nothing. In the session the click pushed the timeline with the
  dropped clip; the update changes the opacity and leaves the history as it was, and a single
  undo restores the snapshot before the cursor, which is the empty timeline.
\<close>

lemma property_update_is_not_pushed:
  "map (map opacity \<circ> clips) (videoTracks afterClick) = [[100], [], []]
   \<and> map (map opacity \<circ> clips) (videoTracks afterUpdate) = [[50], [], []]
   \<and> videoHistory afterUpdate = videoHistory afterClick
   \<and> videoHistoryIndex afterUpdate = videoHistoryIndex afterClick
   \<and> fst (handleVideoUndo afterUpdate) = None
   \<and> videoTracks (snd (handleVideoUndo afterUpdate)) = videoTracks initialEditor
   \<and> videoTracks (snd (handleVideoUndo afterUpdate)) \<noteq> videoTracks afterClick"
proof -
  have click: "afterClick = afterDropA
     \<lparr> videoHistory := [Stringified (currentSnapshot initialEditor), Stringified (currentSnapshot initialEditor),
                        Stringified (currentSnapshot afterDropA)],
       videoHistoryIndex := 2, selectedClipId := Some ''1000'', draggingClipId := None,
       dragStartX := 120, dragOriginalStartTime := 0 \<rparr>"
    by (simp add: afterClick_def handleTimelineMouseUp_def handleClipMouseDown_def Let_def
        pushVideoHistory_def slice0_def JSON_stringify_def currentSnapshot_def afterDropA_eq
        droppedClip_def pointerAt_def initialEditor_def importedClip_def)
  have a: "map (map opacity \<circ> clips) (videoTracks afterClick) = [[100], [], []]"
    by (simp add: click afterDropA_eq emptyTrack_def importedClip_def)
  have upd: "videoTracks afterUpdate =
      [emptyTrack ''v1'' ''Video 1'' \<lparr> clips := [droppedClip \<lparr> opacity := 50 \<rparr>] \<rparr>,
       emptyTrack ''v2'' ''Video 2'', emptyTrack ''v3'' ''Text/FX'']"
    by (simp add: afterUpdate_def updateSelectedClip_def Let_def click afterDropA_eq
        droppedClip_def emptyTrack_def importedClip_def)
  have b: "map (map opacity \<circ> clips) (videoTracks afterUpdate) = [[50], [], []]"
    by (simp add: upd emptyTrack_def)
  have h: "videoHistory afterUpdate = videoHistory afterClick"
    "videoHistoryIndex afterUpdate = videoHistoryIndex afterClick"
    by (simp_all add: afterUpdate_def no_push_handlers)
  have hc: "videoHistory afterClick = [Stringified (currentSnapshot initialEditor),
      Stringified (currentSnapshot initialEditor), Stringified (currentSnapshot afterDropA)]"
    "videoHistoryIndex afterClick = 2"
    by (simp_all add: click)
  have u: "fst (handleVideoUndo afterUpdate) = None"
    "videoTracks (snd (handleVideoUndo afterUpdate)) = videoTracks initialEditor"
    by (simp_all add: handleVideoUndo_def Let_def h hc parse_entry_def js_index_def currentSnapshot_def)
  have i: "map (map opacity \<circ> clips) (videoTracks initialEditor) = [[], [], []]"
    by (simp add: initial_tracks emptyTrack_def)
  from a i have "videoTracks initialEditor \<noteq> videoTracks afterClick" by auto
  with a b h u show ?thesis by simp
qed

subsection \<open>The two halves of a split\<close>






















subsection \<open>Undo and redo on the reachable states\<close>












text \<open>
  The handlers themselves have no path for an entry that fails to parse: they write the
  cursor before they parse, so where the parse throws, which no reachable state allows, the
  cursor has moved and the tracks have not.
\<close>

lemma cursor_is_written_before_the_parse:
  "(0 < videoHistoryIndex s \<and> parse_entry (videoHistory s) (videoHistoryIndex s - 1) = Inl err
      \<longrightarrow> handleVideoUndo s = (Some err, s \<lparr> videoHistoryIndex := videoHistoryIndex s - 1 \<rparr>))
   \<and> (videoHistoryIndex s < int (length (videoHistory s)) - 1
        \<and> parse_entry (videoHistory s) (videoHistoryIndex s + 1) = Inl err
      \<longrightarrow> handleVideoRedo s = (Some err, s \<lparr> videoHistoryIndex := videoHistoryIndex s + 1 \<rparr>))"
  by (simp add: handleVideoUndo_def handleVideoRedo_def Let_def)

end
